theory Spec2Isabelle
  imports Complex_Main
begin

section \<open>Arrays and errors\<close>

text \<open>
  A numpy array or torch tensor is modelled by its shape together with its elements as a
  nested list, outermost axis first. The shape is kept beside the elements because an
  axis of size zero leaves no trace in the nested list (an array of shape \<open>[0, 3]\<close> and
  one of shape \<open>[0, 5]\<close> both have no elements), while the checks of the program read it.
  Floating-point elements are idealised as \<open>real\<close>, integer elements as \<open>int\<close>.
\<close>

datatype 'a nd = Elem 'a | Axis "'a nd list"

record 'a tensor =
  shape :: "nat list"
  elems :: "'a nd"

text \<open>Every exception of the program is a value; \<open>Inl\<close> carries it.\<close>

datatype error =
  KeyError | IndexError | ValueError | TypeError | AttributeError
  | RuntimeError | ConfigurationError

definition bindE :: "error + 'a \<Rightarrow> ('a \<Rightarrow> error + 'b) \<Rightarrow> error + 'b" where
  "bindE m f = (case m of Inl e \<Rightarrow> Inl e | Inr x \<Rightarrow> f x)"

text \<open>The representation invariant: the nested list is rectangular, of the stated shape.\<close>

fun has_shape :: "nat list \<Rightarrow> 'a nd \<Rightarrow> bool" where
  "has_shape [] (Elem x) = True"
| "has_shape (n # ns) (Axis ts) = (length ts = n \<and> list_all (has_shape ns) ts)"
| "has_shape [] (Axis ts) = False"
| "has_shape (n # ns) (Elem x) = False"

definition well_formed :: "'a tensor \<Rightarrow> bool" where
  "well_formed T = has_shape (shape T) (elems T)"

fun flatten :: "'a nd \<Rightarrow> 'a list" where
  "flatten (Elem x) = [x]"
| "flatten (Axis ts) = concat (map flatten ts)"

fun map_nd :: "('a \<Rightarrow> 'b) \<Rightarrow> 'a nd \<Rightarrow> 'b nd" where
  "map_nd f (Elem x) = Elem (f x)"
| "map_nd f (Axis ts) = Axis (map (map_nd f) ts)"

definition map_tensor :: "('a \<Rightarrow> 'b) \<Rightarrow> 'a tensor \<Rightarrow> 'b tensor" where
  "map_tensor f T = \<lparr>shape = shape T, elems = map_nd f (elems T)\<rparr>"

definition numel :: "'a tensor \<Rightarrow> nat" where
  "numel t = prod_list (shape t)"

fun children :: "'a nd \<Rightarrow> 'a nd list" where
  "children (Axis ts) = ts"
| "children (Elem x) = []"

fun full_nd :: "nat list \<Rightarrow> 'a \<Rightarrow> 'a nd" where
  "full_nd [] v = Elem v"
| "full_nd (n # ns) v = Axis (replicate n (full_nd ns v))"

definition full :: "nat list \<Rightarrow> 'a \<Rightarrow> 'a tensor" where
  "full sh v = \<lparr>shape = sh, elems = full_nd sh v\<rparr>"

section \<open>The torch operations of model_acc\<close>

subsection \<open>Slicing and concatenation along an axis\<close>

text \<open>
  \<open>narrow_nd d s c\<close> keeps, along axis \<open>d\<close>, the \<open>c\<close> entries that start at index \<open>s\<close>
  (\<open>torch.narrow\<close>, a slice \<open>s : s + c\<close>); \<open>cat2_nd d\<close> joins two arrays along axis \<open>d\<close>.
\<close>

fun narrow_nd :: "nat \<Rightarrow> nat \<Rightarrow> nat \<Rightarrow> 'a nd \<Rightarrow> 'a nd" where
  "narrow_nd 0 s c (Axis ts) = Axis (take c (drop s ts))"
| "narrow_nd (Suc d) s c (Axis ts) = Axis (map (narrow_nd d s c) ts)"
| "narrow_nd d s c (Elem x) = Elem x"

fun cat2_nd :: "nat \<Rightarrow> 'a nd \<Rightarrow> 'a nd \<Rightarrow> 'a nd" where
  "cat2_nd 0 (Axis as) (Axis bs) = Axis (as @ bs)"
| "cat2_nd (Suc d) (Axis as) (Axis bs) = Axis (map2 (cat2_nd d) as bs)"
| "cat2_nd d a b = a"

fun cat_nd :: "nat \<Rightarrow> 'a nd list \<Rightarrow> 'a nd" where
  "cat_nd d [] = Axis []"
| "cat_nd d [t] = t"
| "cat_nd d (t # ts) = cat2_nd d t (cat_nd d ts)"

text \<open>
  \<open>torch.cat(ts, dim=d)\<close>: an empty list and shapes that differ outside axis \<open>d\<close> are
  RuntimeErrors, an axis the tensors do not have is an IndexError.
\<close>

definition torch_cat :: "'a tensor list \<Rightarrow> nat \<Rightarrow> error + 'a tensor" where
  "torch_cat ts d =
     (case ts of
        [] \<Rightarrow> Inl RuntimeError
      | t # rest \<Rightarrow>
          if length (shape t) \<le> d then Inl IndexError
          else if \<not> list_all (\<lambda>u. (shape u)[d := 0] = (shape t)[d := 0]) rest
          then Inl RuntimeError
          else Inr \<lparr>shape = (shape t)[d := sum_list (map (\<lambda>u. shape u ! d) ts)],
                    elems = cat_nd d (map elems ts)\<rparr>)"

subsection \<open>Transposition\<close>

text \<open>
  \<open>swap_axes_nd d sh\<close> exchanges axis \<open>d\<close> with axis \<open>d + 1\<close> of an array of shape \<open>sh\<close>.
  \<open>transpose_last t k\<close> is \<open>t.transpose(-k, -(k + 1))\<close>: the two calls of msa.py are
  \<open>transpose(-2, -3)\<close> and \<open>transpose(-1, -2)\<close>. A tensor with fewer than \<open>k + 1\<close> axes
  raises IndexError.
\<close>

fun swap_axes_nd :: "nat \<Rightarrow> nat list \<Rightarrow> 'a nd \<Rightarrow> 'a nd" where
  "swap_axes_nd 0 (n # m # ns) (Axis ts) =
     Axis (map (\<lambda>j. Axis (map (\<lambda>row. children row ! j) ts)) [0..<m])"
| "swap_axes_nd (Suc d) (n # ns) (Axis ts) = Axis (map (swap_axes_nd d ns) ts)"
| "swap_axes_nd d sh t = t"

definition swap_shape :: "nat \<Rightarrow> nat list \<Rightarrow> nat list" where
  "swap_shape d sh = sh[d := sh ! Suc d, Suc d := sh ! d]"

definition transpose_last :: "'a tensor \<Rightarrow> nat \<Rightarrow> error + 'a tensor" where
  "transpose_last t k =
     (if k = 0 \<or> length (shape t) < k + 1 then Inl IndexError
      else let d = length (shape t) - (k + 1)
           in Inr \<lparr>shape = swap_shape d (shape t), elems = swap_axes_nd d (shape t) (elems t)\<rparr>)"

subsection \<open>Element-wise arithmetic with broadcasting\<close>

text \<open>
  Shapes are aligned at their last axis; two sizes are compatible when they are equal or
  one of them is 1. \<open>expand_nd target src t\<close> repeats the array \<open>t\<close> of shape \<open>src\<close> up to
  the shape \<open>target\<close>.
\<close>

fun bshape_rev :: "nat list \<Rightarrow> nat list \<Rightarrow> nat list option" where
  "bshape_rev [] ys = Some ys"
| "bshape_rev xs [] = Some xs"
| "bshape_rev (x # xs) (y # ys) =
     (if x = y \<or> y = 1 then map_option (Cons x) (bshape_rev xs ys)
      else if x = 1 then map_option (Cons y) (bshape_rev xs ys)
      else None)"

definition broadcast_shapes :: "nat list \<Rightarrow> nat list \<Rightarrow> nat list option" where
  "broadcast_shapes a b = map_option rev (bshape_rev (rev a) (rev b))"

fun expand_nd :: "nat list \<Rightarrow> nat list \<Rightarrow> 'a nd \<Rightarrow> 'a nd" where
  "expand_nd [] src t = t"
| "expand_nd (n # ns) src t =
     (if length src \<le> length ns then Axis (replicate n (expand_nd ns src t))
      else if hd src = n then Axis (map (expand_nd ns (tl src)) (children t))
      else Axis (replicate n (expand_nd ns (tl src) (hd (children t)))))"

function (sequential) zip_nd :: "('a \<Rightarrow> 'b \<Rightarrow> 'c) \<Rightarrow> 'a nd \<Rightarrow> 'b nd \<Rightarrow> 'c nd" where
  "zip_nd f (Elem a) (Elem b) = Elem (f a b)"
| "zip_nd f (Axis as) (Axis bs) = Axis (map2 (zip_nd f) as bs)"
| "zip_nd f (Elem a) (Axis bs) = Axis []"
| "zip_nd f (Axis as) (Elem b) = Axis []"
  by pat_completeness auto
termination
proof (relation "measure (\<lambda>(f, a, b). size a)")
  show "wf (measure (\<lambda>(f, a, b). size a))" by simp
next
  fix f :: "'a \<Rightarrow> 'b \<Rightarrow> 'c" and as :: "'a nd list" and bs :: "'b nd list" and z x y
  assume "z \<in> set (zip as bs)" and "(x, y) = z"
  then have "x \<in> set as" by (auto dest: set_zip_leftD)
  then have "size x \<le> size_list size as" by (simp add: size_list_estimation')
  then show "((f, x, y), (f, Axis as, Axis bs)) \<in> measure (\<lambda>(f, a, b). size a)" by simp
qed

definition torch_binop ::
  "('a \<Rightarrow> 'b \<Rightarrow> 'c) \<Rightarrow> 'a tensor \<Rightarrow> 'b tensor \<Rightarrow> error + 'c tensor" where
  "torch_binop f a b =
     (case broadcast_shapes (shape a) (shape b) of
        None \<Rightarrow> Inl RuntimeError
      | Some sh \<Rightarrow>
          Inr \<lparr>shape = sh,
                elems = zip_nd f (expand_nd sh (shape a) (elems a))
                                 (expand_nd sh (shape b) (elems b))\<rparr>)"

definition torch_add :: "real tensor \<Rightarrow> real tensor \<Rightarrow> error + real tensor" where
  "torch_add a b = torch_binop (\<lambda>x y. x + y) a b"

definition torch_mul :: "real tensor \<Rightarrow> real tensor \<Rightarrow> error + real tensor" where
  "torch_mul a b = torch_binop (\<lambda>x y. x * y) a b"

definition ones_like :: "real tensor \<Rightarrow> real tensor" where
  "ones_like t = map_tensor (\<lambda>_. 1) t"

subsection \<open>F.linear\<close>

text \<open>
  \<open>F.linear(input, weight)\<close> with \<open>weight\<close> of shape \<open>[out, in]\<close>: every vector along the
  last axis of \<open>input\<close> is replaced by its products with the rows of \<open>weight\<close>.
\<close>

fun last_axis_map :: "('a list \<Rightarrow> 'b list) \<Rightarrow> nat list \<Rightarrow> 'a nd \<Rightarrow> 'b nd" where
  "last_axis_map f [] t = Axis []"
| "last_axis_map f [n] t = Axis (map Elem (f (flatten t)))"
| "last_axis_map f (n # ns) t = Axis (map (last_axis_map f ns) (children t))"

definition dot :: "real list \<Rightarrow> real list \<Rightarrow> real" where
  "dot xs ys = sum_list (map2 (\<lambda>x y. x * y) xs ys)"

definition F_linear :: "real tensor \<Rightarrow> real tensor \<Rightarrow> error + real tensor" where
  "F_linear input weight =
     (if shape input = [] \<or> length (shape weight) \<noteq> 2 \<or> last (shape input) \<noteq> shape weight ! 1
      then Inl RuntimeError
      else Inr \<lparr>shape = butlast (shape input) @ [shape weight ! 0],
                elems = last_axis_map
                          (\<lambda>v. map (\<lambda>w. dot v (flatten w)) (children (elems weight)))
                          (shape input) (elems input)\<rparr>)"

subsection \<open>F.dropout\<close>

text \<open>
  Dropout reads and advances the random generator of the worker. The generator is a
  state \<open>'g\<close> and a sampler that, from a state, a probability \<open>p\<close> and a shape, draws for
  every element whether it is kept (with probability \<open>1 - p\<close>), and returns the next
  state. \<open>F.dropout(x, p, training)\<close> raises ValueError for \<open>p\<close> outside \<open>[0, 1]\<close>, returns
  \<open>x\<close> itself when not training, when \<open>p = 0\<close> and on an empty tensor, zeros when \<open>p = 1\<close>,
  and otherwise zeroes the dropped elements and scales the kept ones by \<open>1 / (1 - p)\<close>.
\<close>

type_synonym 'g sampler = "'g \<Rightarrow> real \<Rightarrow> nat list \<Rightarrow> bool tensor \<times> 'g"

definition F_dropout ::
  "'g sampler \<Rightarrow> real tensor \<Rightarrow> real \<Rightarrow> bool \<Rightarrow> 'g \<Rightarrow> error + (real tensor \<times> 'g)" where
  "F_dropout sampler x p train g =
     (if p < 0 \<or> 1 < p then Inl ValueError
      else if \<not> train \<or> p = 0 \<or> numel x = 0 then Inr (x, g)
      else if p = 1 then Inr (map_tensor (\<lambda>_. 0) x, g)
      else let kg = sampler g p (shape x)
           in Inr (\<lparr>shape = shape x,
                     elems = zip_nd (\<lambda>k v. if k then v / (1 - p) else 0)
                               (elems (fst kg)) (elems x)\<rparr>,
                   snd kg))"

section \<open>np/protein.py\<close>

subsection \<open>The numpy operations it uses\<close>

text \<open>\<open>np.unique(a)\<close>: the sorted distinct elements of the flattened array.\<close>

definition np_unique :: "int tensor \<Rightarrow> int list" where
  "np_unique a = sort (remdups (flatten (elems a)))"

text \<open>\<open>np.zeros_like(a)\<close>: an array of the shape of \<open>a\<close>, filled with zeros.\<close>

definition np_zeros_like :: "('a::zero) tensor \<Rightarrow> 'a tensor" where
  "np_zeros_like a = map_tensor (\<lambda>_. 0) a"

text \<open>
  \<open>arr[0]\<close>: the first sub-array along the leading axis; IndexError on a 0-dimensional
  array and on a leading axis of size zero.
\<close>

definition index0 :: "'a tensor \<Rightarrow> error + 'a tensor" where
  "index0 arr =
     (case shape arr of
        [] \<Rightarrow> Inl IndexError
      | n # ns \<Rightarrow>
          (case elems arr of
             Axis (t # ts) \<Rightarrow> Inr \<lparr>shape = ns, elems = t\<rparr>
           | _ \<Rightarrow> Inl IndexError))"

subsection \<open>Protein\<close>

definition PDB_CHAIN_IDS :: string where
  "PDB_CHAIN_IDS = ''ABCDEFGHIJKLMNOPQRSTUVWXYZabcdefghijklmnopqrstuvwxyz0123456789''"

definition PDB_MAX_CHAINS :: nat where
  "PDB_MAX_CHAINS = length PDB_CHAIN_IDS"

record Protein =
  atom_positions :: "real tensor"
  aatype :: "int tensor"
  atom_mask :: "real tensor"
  residue_index :: "int tensor"
  b_factors :: "real tensor"
  chain_index :: "int tensor"
  remark :: "string option"
  parents :: "string list option"
  parents_chain_index :: "int list option"

text \<open>\<open>Protein.__post_init__\<close>: the only check made when a Protein is built.\<close>

definition Protein_post_init :: "Protein \<Rightarrow> error + unit" where
  "Protein_post_init self =
     (if length (np_unique (chain_index self)) > PDB_MAX_CHAINS
      then Inl ValueError
      else Inr ())"

text \<open>
  The dataclass constructor: the generated \<open>__init__\<close> stores the fields and then runs
  \<open>__post_init__\<close>; its exception is the constructor's.
\<close>

definition Protein_init ::
  "real tensor \<Rightarrow> int tensor \<Rightarrow> real tensor \<Rightarrow> int tensor \<Rightarrow> real tensor \<Rightarrow> int tensor
   \<Rightarrow> string option \<Rightarrow> string list option \<Rightarrow> int list option \<Rightarrow> error + Protein" where
  "Protein_init pos aa am ri bf ci rmk par pci =
     (let self = \<lparr>atom_positions = pos, aatype = aa, atom_mask = am, residue_index = ri,
                  b_factors = bf, chain_index = ci, remark = rmk, parents = par,
                  parents_chain_index = pci\<rparr>
      in bindE (Protein_post_init self) (\<lambda>_. Inr self))"

subsection \<open>from_prediction\<close>

text \<open>
  \<open>FeatureDict\<close> maps feature names to integer arrays. \<open>ModelOutput\<close> is a nested
  dictionary whose leaves are arrays.
\<close>

type_synonym FeatureDict = "string \<Rightarrow> int tensor option"

datatype pyval = Arr "real tensor" | Dict "string \<Rightarrow> pyval option"

type_synonym ModelOutput = "string \<Rightarrow> pyval option"

text \<open>\<open>d[k]\<close> on a feature dictionary.\<close>

definition feature_getitem :: "FeatureDict \<Rightarrow> string \<Rightarrow> error + int tensor" where
  "feature_getitem features k =
     (case features k of None \<Rightarrow> Inl KeyError | Some a \<Rightarrow> Inr a)"

text \<open>
  \<open>v[k]\<close> on a model output value: KeyError for a key the dictionary lacks; an array
  indexed by a string raises IndexError.
\<close>

definition py_getitem :: "pyval \<Rightarrow> string \<Rightarrow> error + pyval" where
  "py_getitem v k =
     (case v of
        Arr a \<Rightarrow> Inl IndexError
      | Dict m \<Rightarrow> (case m k of None \<Rightarrow> Inl KeyError | Some x \<Rightarrow> Inr x))"

text \<open>
  \<open>v.get(k, result[k])\<close>: the attribute \<open>get\<close> is looked up first (an array has none),
  then the default \<open>result[k]\<close> is evaluated, needed or not, and only then the lookup
  is made.
\<close>

definition py_get_with_default :: "pyval \<Rightarrow> string \<Rightarrow> ModelOutput \<Rightarrow> error + pyval" where
  "py_get_with_default v k result =
     (case v of
        Arr a \<Rightarrow> Inl AttributeError
      | Dict m \<Rightarrow>
          bindE (py_getitem (Dict result) k)
            (\<lambda>dflt. Inr (case m k of None \<Rightarrow> dflt | Some x \<Rightarrow> x)))"

text \<open>
  The fields of a Protein are arrays. Where the model output holds a nested dictionary
  in the place of an array the model stops with TypeError: such an output is outside the
  declared types of the program.
\<close>

definition as_array :: "pyval \<Rightarrow> error + real tensor" where
  "as_array v = (case v of Arr a \<Rightarrow> Inr a | Dict m \<Rightarrow> Inl TypeError)"

text \<open>The local function \<open>_maybe_remove_leading_dim\<close>.\<close>

definition maybe_remove_leading_dim :: "bool \<Rightarrow> 'a tensor \<Rightarrow> error + 'a tensor" where
  "maybe_remove_leading_dim remove_leading_feature_dimension arr =
     (if remove_leading_feature_dimension then index0 arr else Inr arr)"

text \<open>
  \<open>from_prediction\<close>, statement by statement. The second test \<open>b_factors is None\<close> of
  the source can no longer hold where it stands and is left out.
\<close>

definition from_prediction ::
  "FeatureDict \<Rightarrow> ModelOutput \<Rightarrow> real tensor option \<Rightarrow> int tensor option \<Rightarrow> string option
   \<Rightarrow> string list option \<Rightarrow> int list option \<Rightarrow> bool \<Rightarrow> error + Protein" where
  "from_prediction features result b_factors_arg chain_index_arg remark_arg parents_arg
     parents_chain_index_arg remove_leading_feature_dimension =
     (let fold_output =
            (case result ''structure_module'' of Some v \<Rightarrow> v | None \<Rightarrow> Dict result)
      in
      bindE (case b_factors_arg of
               Some b \<Rightarrow> Inr b
             | None \<Rightarrow>
                 bindE (py_getitem fold_output ''final_atom_mask'')
                   (\<lambda>m. bindE (as_array m) (\<lambda>a. Inr (np_zeros_like a))))
      (\<lambda>b_factors_v.
      bindE (py_get_with_default fold_output ''final_atom_mask'' result)
      (\<lambda>atom_mask_v.
      bindE (py_get_with_default fold_output ''final_atom_positions'' result)
      (\<lambda>atom_positions_v.
      bindE (case features ''asym_id'' of
               Some a \<Rightarrow> maybe_remove_leading_dim remove_leading_feature_dimension a
             | None \<Rightarrow>
                 bindE (feature_getitem features ''aatype'')
                   (\<lambda>aa. bindE (maybe_remove_leading_dim remove_leading_feature_dimension aa)
                     (\<lambda>aa0. Inr (np_zeros_like aa0))))
      (\<lambda>chain_index_v.
      bindE (feature_getitem features ''aatype'')
      (\<lambda>aa. bindE (maybe_remove_leading_dim remove_leading_feature_dimension aa)
      (\<lambda>aatype_v.
      bindE (as_array atom_positions_v)
      (\<lambda>atom_positions_a.
      bindE (as_array atom_mask_v)
      (\<lambda>atom_mask_a.
      bindE (feature_getitem features ''residue_index'')
      (\<lambda>ri. bindE (maybe_remove_leading_dim remove_leading_feature_dimension ri)
      (\<lambda>ri0.
      Protein_init atom_positions_a aatype_v atom_mask_a (map_tensor (\<lambda>i. i + 1) ri0)
        b_factors_v chain_index_v remark_arg parents_arg parents_chain_index_arg)))))))))))"

section \<open>model_acc/distributed: the collective primitives\<close>

text \<open>
  The package \<open>xtrimomultimer.model_acc.distributed\<close> (scatter, gather, row_to_col and
  gather_async with its handle) is imported by msa.py. A worker of the group is
  identified by the size of the group and its own rank. A collective operation involves
  what every worker of the group contributes: the list \<open>peers\<close> holds these contributions
  in rank order, and the slot of the calling worker is filled with its own tensor.
\<close>

record group =
  world_size :: nat
  rank :: nat

fun mapE :: "('a \<Rightarrow> error + 'b) \<Rightarrow> 'a list \<Rightarrow> error + 'b list" where
  "mapE f [] = Inr []"
| "mapE f (x # xs) = bindE (f x) (\<lambda>y. bindE (mapE f xs) (\<lambda>ys. Inr (y # ys)))"

text \<open>
  Modelled from the spec: \<open>scatter\<close> of model_acc/distributed, whose code is missing.
  \<open>scatter(tensor, dim)\<close> splits the tensor along axis \<open>dim\<close> into equal-sized contiguous
  chunks, one per worker, and returns the chunk of this worker; a size along \<open>dim\<close> that
  the worker count does not divide is a fatal configuration error.
\<close>

definition scatter :: "group \<Rightarrow> 'a tensor \<Rightarrow> nat \<Rightarrow> error + 'a tensor" where
  "scatter g t d =
     (if length (shape t) \<le> d then Inl IndexError
      else if shape t ! d mod world_size g \<noteq> 0 then Inl ConfigurationError
      else let c = shape t ! d div world_size g
           in Inr \<lparr>shape = (shape t)[d := c], elems = narrow_nd d (rank g * c) c (elems t)\<rparr>)"

text \<open>The chunk that \<open>scatter\<close> gives to rank \<open>j\<close> of \<open>w\<close> workers when it succeeds.\<close>

definition chunk :: "nat \<Rightarrow> 'a tensor \<Rightarrow> nat \<Rightarrow> nat \<Rightarrow> 'a tensor" where
  "chunk w t d j = \<lparr>shape = (shape t)[d := shape t ! d div w],
                    elems = narrow_nd d (j * (shape t ! d div w)) (shape t ! d div w) (elems t)\<rparr>"

text \<open>
  Modelled from the spec: \<open>gather\<close> of model_acc/distributed, whose code is missing.
  The inverse of scatter: it collects the local shards of all workers along \<open>dim\<close> and
  returns the reassembled tensor on every worker.
\<close>

definition gather :: "group \<Rightarrow> 'a tensor list \<Rightarrow> 'a tensor \<Rightarrow> nat \<Rightarrow> error + 'a tensor" where
  "gather g peers t d = torch_cat (peers[rank g := t]) d"

text \<open>
  Modelled from the spec: \<open>gather_async\<close> of model_acc/distributed/comm_async, whose code
  is missing, with its handle and the wait on it. It starts the same collective as gather
  and returns at once the tensor that is not yet finalized, together with a handle. The
  tensor that is not yet finalized is held as its receive slots along the axis, one for
  each rank: the slot of the calling worker holds the tensor of the worker itself (the
  tensor is partial), every other slot holds a placeholder, whose content is not valid
  for read. The handle stands for the transfers in flight: the axis and, for every peer,
  its rank with the piece that is on its way, in the order in which the transfers
  complete (\<open>arrival r\<close> is the time at which the piece of rank \<open>r\<close> arrives). \<open>wait\<close>
  lets the transfers complete, each piece into the slot of its rank, and joins the slots
  along the axis: the finalized gathered tensor. Waiting is a function of the pair, so
  that waiting a second time gives the same tensor.
\<close>

datatype 'a work = Work nat "(nat \<times> 'a tensor) list"

definition gather_async ::
  "group \<Rightarrow> 'a tensor list \<Rightarrow> (nat \<Rightarrow> nat) \<Rightarrow> 'a tensor \<Rightarrow> 'a tensor \<Rightarrow> nat
   \<Rightarrow> error + ('a tensor list \<times> 'a work)" where
  "gather_async g peers arrival placeholder t d =
     (let n = length peers;
          order = filter (\<lambda>r. r \<noteq> rank g) (sort_key arrival [0..<n])
      in Inr ((replicate n placeholder)[rank g := t],
              Work d (map (\<lambda>r. (r, peers ! r)) order)))"

definition deliver :: "nat \<times> 'a tensor \<Rightarrow> 'a tensor list \<Rightarrow> 'a tensor list" where
  "deliver transfer slots = slots[fst transfer := snd transfer]"

definition wait :: "'a tensor list \<times> 'a work \<Rightarrow> error + 'a tensor" where
  "wait bw = (case snd bw of Work d in_flight \<Rightarrow> torch_cat (fold deliver in_flight (fst bw)) d)"

text \<open>
  Modelled from the spec: \<open>row_to_col\<close> of model_acc/distributed, whose code is missing.
  An all-to-all exchange: each worker sends the column slice of its row shard that is
  destined for worker \<open>j\<close> to worker \<open>j\<close>, and worker \<open>j\<close> concatenates the fragments it
  receives along the row axis (axis 1), in rank order. The column slices are the equal
  chunks of axis 2.
\<close>

definition row_to_col :: "group \<Rightarrow> 'a tensor list \<Rightarrow> 'a tensor \<Rightarrow> error + 'a tensor" where
  "row_to_col g peers t =
     bindE (mapE (\<lambda>s. scatter g s 2) (peers[rank g := t]))
       (\<lambda>fragments. torch_cat fragments 1)"

text \<open>
  Modelled from the spec: the inverse column-to-row transform the spec speaks of, which
  msa.py does not call: the same exchange with the two axes in each other's place.
\<close>

definition col_to_row :: "group \<Rightarrow> 'a tensor list \<Rightarrow> 'a tensor \<Rightarrow> error + 'a tensor" where
  "col_to_row g peers t =
     bindE (mapE (\<lambda>s. scatter g s 1) (peers[rank g := t]))
       (\<lambda>fragments. torch_cat fragments 2)"

text \<open>The whole group at once: what each rank holds after the operation.\<close>

definition scatter_all :: "nat \<Rightarrow> 'a tensor \<Rightarrow> nat \<Rightarrow> error + 'a tensor list" where
  "scatter_all w t d = mapE (\<lambda>j. scatter \<lparr>world_size = w, rank = j\<rparr> t d) [0..<w]"

definition row_to_col_all :: "nat \<Rightarrow> 'a tensor list \<Rightarrow> error + 'a tensor list" where
  "row_to_col_all w shards =
     mapE (\<lambda>j. row_to_col \<lparr>world_size = w, rank = j\<rparr> shards (shards ! j)) [0..<w]"

definition col_to_row_all :: "nat \<Rightarrow> 'a tensor list \<Rightarrow> error + 'a tensor list" where
  "col_to_row_all w shards =
     mapE (\<lambda>j. col_to_row \<lparr>world_size = w, rank = j\<rparr> shards (shards ! j)) [0..<w]"

text \<open>
  What rank \<open>j\<close> holds after row_to_col, written out: from each row shard (of shape
  \<open>sh\<close>) the \<open>j\<close>-th column chunk, joined along the row axis in rank order.
\<close>

definition col_of :: "nat \<Rightarrow> nat list \<Rightarrow> 'a tensor list \<Rightarrow> nat \<Rightarrow> 'a tensor" where
  "col_of w sh shards j =
     \<lparr>shape = sh[2 := sh ! 2 div w, 1 := w * sh ! 1],
      elems = cat_nd 1 (map (\<lambda>s. narrow_nd 2 (j * (sh ! 2 div w)) (sh ! 2 div w) (elems s))
                         shards)\<rparr>"

section \<open>model_acc/kernel and model_acc/ops\<close>

text \<open>
  What a worker's forward pass takes from its surroundings: its place in the group, the
  tensors its peers contribute to the two collectives of the pass (the gather of the pair
  bias and the row-to-column exchange of the node), the times at which the pieces of the
  asynchronous gather arrive, the content of a receive slot that has not been written
  yet, and the sampler of its random generator.
\<close>

record 'g env =
  grp :: group
  bias_peers :: "real tensor list"
  node_peers :: "real tensor list"
  arrival :: "nat \<Rightarrow> nat"
  uninit :: "real tensor"
  bernoulli :: "'g sampler"

text \<open>
  Modelled from the spec: \<open>bias_dropout_add\<close> of model_acc/kernel, whose code is missing.
  Three composable operations: add the bias, apply the dropout mask (dropped during
  training only), add the residual.
\<close>

definition bias_dropout_add ::
  "'g sampler \<Rightarrow> real tensor \<Rightarrow> real tensor \<Rightarrow> real tensor \<Rightarrow> real tensor \<Rightarrow> real \<Rightarrow> bool
   \<Rightarrow> 'g \<Rightarrow> error + (real tensor \<times> 'g)" where
  "bias_dropout_add sampler x bias dropmask residual prob train g =
     bindE (torch_add x bias)
     (\<lambda>xb. bindE (F_dropout sampler dropmask prob train g)
     (\<lambda>dg. bindE (torch_mul xb (fst dg))
     (\<lambda>y. bindE (torch_add residual y)
     (\<lambda>out. Inr (out, snd dg)))))"

text \<open>
  The attention computations themselves (\<open>SelfAttention\<close>, \<open>GlobalAttention\<close>), the layer
  normalisation and the feed-forward layers of \<open>Transition\<close> are learned numerical
  kernels; they are parameters of the model: any functions from tensors to a tensor or an
  error.
\<close>

type_synonym kernel = "real tensor \<Rightarrow> error + real tensor"

type_synonym attention_kernel =
  "real tensor \<Rightarrow> real tensor \<Rightarrow> real tensor option \<Rightarrow> error + real tensor"

text \<open>
  Modelled from the spec: the call of \<open>SelfAttention\<close> (model_acc/ops, code missing) with
  a bias that is still in flight. The pair \<open>(b, work)\<close> of gather_async is waited for
  exactly where the bias is needed as an argument of the attention.
\<close>

definition SelfAttention ::
  "attention_kernel \<Rightarrow> real tensor \<Rightarrow> real tensor \<Rightarrow> (real tensor list \<times> real work) option
   \<Rightarrow> error + real tensor" where
  "SelfAttention core M M_mask nonbatched_bias =
     (case nonbatched_bias of
        None \<Rightarrow> core M M_mask None
      | Some bw \<Rightarrow> bindE (wait bw) (\<lambda>b. core M M_mask (Some b)))"

text \<open>
  Modelled from the spec: \<open>Transition\<close> of model_acc/ops, whose code is missing: the
  two-layer feed-forward with its nonlinearity, added residually to its input.
\<close>

record Transition =
  feed_forward :: kernel

definition Transition_forward :: "Transition \<Rightarrow> real tensor \<Rightarrow> error + real tensor" where
  "Transition_forward self src = bindE (feed_forward self src) (\<lambda>x. torch_add src x)"

section \<open>model_acc/msa.py\<close>

subsection \<open>MSARowAttentionWithPairBias\<close>

record MSARowAttentionWithPairBias =
  row_layernormM :: kernel
  row_layernormZ :: kernel
  linear_b_weights :: "real tensor"
  row_attention :: attention_kernel
  out_bias :: "real tensor"
  p_drop :: real
  training :: bool

text \<open>
  \<open>M[:, 0:1, :, :]\<close>: four indices need four axes (IndexError otherwise); the slice keeps
  the first row, or none when there is no row.
\<close>

definition first_row_slice :: "'a tensor \<Rightarrow> error + 'a tensor" where
  "first_row_slice M =
     (if length (shape M) < 4 then Inl IndexError
      else let c = min 1 (shape M ! 1)
           in Inr \<lparr>shape = (shape M)[1 := c], elems = narrow_nd 1 0 c (elems M)\<rparr>)"

definition MSARowAttentionWithPairBias_forward ::
  "'g env \<Rightarrow> MSARowAttentionWithPairBias \<Rightarrow> real tensor \<Rightarrow> real tensor \<Rightarrow> real tensor \<Rightarrow> 'g
   \<Rightarrow> error + (real tensor \<times> 'g)" where
  "MSARowAttentionWithPairBias_forward e self M_raw Z M_mask g =
     bindE (row_layernormM self M_raw)
     (\<lambda>M. bindE (row_layernormZ self Z)
     (\<lambda>Z1. bindE (F_linear Z1 (linear_b_weights self))
     (\<lambda>b. bindE (gather_async (grp e) (bias_peers e) (arrival e) (uninit e) b 1)
     (\<lambda>b_work. bindE (SelfAttention (row_attention self) M M_mask (Some b_work))
     (\<lambda>M1. bindE (first_row_slice M1)
     (\<lambda>sl. bias_dropout_add (bernoulli e) M1 (out_bias self) (ones_like sl) M_raw
             (p_drop self) (training self) g))))))"

text \<open>
  The same block as the spec words it, with the synchronous gather: the bias that the
  attention consumes is the gathered bias.
\<close>

definition MSARowAttentionWithPairBias_forward_sync ::
  "'g env \<Rightarrow> MSARowAttentionWithPairBias \<Rightarrow> real tensor \<Rightarrow> real tensor \<Rightarrow> real tensor \<Rightarrow> 'g
   \<Rightarrow> error + (real tensor \<times> 'g)" where
  "MSARowAttentionWithPairBias_forward_sync e self M_raw Z M_mask g =
     bindE (row_layernormM self M_raw)
     (\<lambda>M. bindE (row_layernormZ self Z)
     (\<lambda>Z1. bindE (F_linear Z1 (linear_b_weights self))
     (\<lambda>b. bindE (gather (grp e) (bias_peers e) b 1)
     (\<lambda>b_full. bindE (row_attention self M M_mask (Some b_full))
     (\<lambda>M1. bindE (first_row_slice M1)
     (\<lambda>sl. bias_dropout_add (bernoulli e) M1 (out_bias self) (ones_like sl) M_raw
             (p_drop self) (training self) g))))))"

subsection \<open>MSAColumnAttention and MSAColumnGlobalAttention\<close>

record MSAColumnAttention =
  col_layernormM :: kernel
  col_attention :: attention_kernel

definition MSAColumnAttention_forward ::
  "MSAColumnAttention \<Rightarrow> real tensor \<Rightarrow> real tensor \<Rightarrow> error + real tensor" where
  "MSAColumnAttention_forward self M_raw M_mask =
     bindE (transpose_last M_raw 2)
     (\<lambda>M. bindE (col_layernormM self M)
     (\<lambda>M1. bindE (transpose_last M_mask 1)
     (\<lambda>M_mask1. bindE (SelfAttention (col_attention self) M1 M_mask1 None)
     (\<lambda>M2. bindE (transpose_last M2 2)
     (\<lambda>M3. torch_add M_raw M3)))))"

record MSAColumnGlobalAttention =
  gcol_layernormM :: kernel
  global_attention :: "real tensor \<Rightarrow> real tensor \<Rightarrow> error + real tensor"

definition MSAColumnGlobalAttention_forward ::
  "MSAColumnGlobalAttention \<Rightarrow> real tensor \<Rightarrow> real tensor \<Rightarrow> error + real tensor" where
  "MSAColumnGlobalAttention_forward self M_raw M_mask =
     bindE (transpose_last M_raw 2)
     (\<lambda>M. bindE (gcol_layernormM self M)
     (\<lambda>M1. bindE (transpose_last M_mask 1)
     (\<lambda>M_mask1. bindE (global_attention self M1 M_mask1)
     (\<lambda>M2. bindE (transpose_last M2 2)
     (\<lambda>M3. torch_add M_raw M3)))))"

subsection \<open>MSAStack and ExtraMSAStack\<close>

text \<open>
  The three sub-modules of a stack: \<open>self.MSARowAttentionWithPairBias\<close>,
  \<open>self.MSAColumnAttention\<close> and \<open>self.MSATransition\<close>. In ExtraMSAStack the attribute
  \<open>MSAColumnAttention\<close> holds an MSAColumnGlobalAttention.
\<close>

record MSAStack =
  msa_RowAttentionWithPairBias :: MSARowAttentionWithPairBias
  msa_ColumnAttention :: MSAColumnAttention
  msa_Transition :: Transition

definition MSAStack_forward ::
  "'g env \<Rightarrow> MSAStack \<Rightarrow> real tensor \<Rightarrow> real tensor \<Rightarrow> real tensor \<Rightarrow> 'g
   \<Rightarrow> error + (real tensor \<times> 'g)" where
  "MSAStack_forward e self node pair node_mask g =
     bindE (scatter (grp e) node_mask 1)
     (\<lambda>node_mask_row.
     bindE (MSARowAttentionWithPairBias_forward e (msa_RowAttentionWithPairBias self)
              node pair node_mask_row g)
     (\<lambda>node_g.
     bindE (row_to_col (grp e) (node_peers e) (fst node_g))
     (\<lambda>node1.
     bindE (scatter (grp e) node_mask 2)
     (\<lambda>node_mask_col.
     bindE (MSAColumnAttention_forward (msa_ColumnAttention self) node1 node_mask_col)
     (\<lambda>node2.
     bindE (Transition_forward (msa_Transition self) node2)
     (\<lambda>node3. Inr (node3, snd node_g)))))))"

record ExtraMSAStack =
  extra_RowAttentionWithPairBias :: MSARowAttentionWithPairBias
  extra_ColumnAttention :: MSAColumnGlobalAttention
  extra_Transition :: Transition

definition ExtraMSAStack_forward ::
  "'g env \<Rightarrow> ExtraMSAStack \<Rightarrow> real tensor \<Rightarrow> real tensor \<Rightarrow> real tensor \<Rightarrow> 'g
   \<Rightarrow> error + (real tensor \<times> 'g)" where
  "ExtraMSAStack_forward e self node pair node_mask g =
     bindE (scatter (grp e) node_mask 1)
     (\<lambda>node_mask_row.
     bindE (MSARowAttentionWithPairBias_forward e (extra_RowAttentionWithPairBias self)
              node pair node_mask_row g)
     (\<lambda>node_g.
     bindE (row_to_col (grp e) (node_peers e) (fst node_g))
     (\<lambda>node1.
     bindE (scatter (grp e) node_mask 2)
     (\<lambda>node_mask_col.
     bindE (MSAColumnGlobalAttention_forward (extra_ColumnAttention self) node1 node_mask_col)
     (\<lambda>node2.
     bindE (Transition_forward (extra_Transition self) node2)
     (\<lambda>node3. Inr (node3, snd node_g)))))))"

section \<open>Notions used in the statements\<close>

text \<open>
  A kernel is shape preserving when its result, if any, has the shape of its first
  argument, as attention with \<open>out_dim = qkv_dim\<close>, layer normalisation and the
  feed-forward of the transition have. An exchange is even when the group is well
  numbered and every peer holds a tensor of the shape of this worker's. The shape of a
  column shard is that of the row shard with the rows of all workers and the \<open>w\<close>-th
  part of the columns.
\<close>

definition shape_preserving :: "kernel \<Rightarrow> bool" where
  "shape_preserving k = (\<forall>x y. k x = Inr y \<longrightarrow> shape y = shape x)"

definition shape_preserving2 :: "(real tensor \<Rightarrow> real tensor \<Rightarrow> error + real tensor) \<Rightarrow> bool" where
  "shape_preserving2 k = (\<forall>x m y. k x m = Inr y \<longrightarrow> shape y = shape x)"

definition shape_preserving3 :: "attention_kernel \<Rightarrow> bool" where
  "shape_preserving3 k = (\<forall>x m b y. k x m b = Inr y \<longrightarrow> shape y = shape x)"

definition even_exchange :: "'g env \<Rightarrow> real tensor \<Rightarrow> bool" where
  "even_exchange e t =
     (rank (grp e) < world_size (grp e) \<and> length (node_peers e) = world_size (grp e)
      \<and> (\<forall>s\<in>set (node_peers e). shape s = shape t))"

definition column_sharded_shape :: "nat \<Rightarrow> nat list \<Rightarrow> nat list" where
  "column_sharded_shape w sh = sh[2 := sh ! 2 div w, 1 := w * sh ! 1]"

text \<open>A sampler is well shaped when the keep decisions it draws have the shape asked for.\<close>

definition sampler_shaped :: "'g sampler \<Rightarrow> bool" where
  "sampler_shaped s = (\<forall>g p sh. has_shape sh (elems (fst (s g p sh))))"

section \<open>Concrete inputs\<close>

text \<open>Small inputs on which the theorems below are exercised.\<close>

definition chains63 :: "int tensor" where
  "chains63 = \<lparr>shape = [63], elems = Axis (map (\<lambda>i. Elem (int i)) [0..<63])\<rparr>"

definition ex_features :: FeatureDict where
  "ex_features =
     [''aatype'' \<mapsto> \<lparr>shape = [1, 2], elems = Axis [Axis [Elem 0, Elem 7]]\<rparr>,
      ''residue_index'' \<mapsto> \<lparr>shape = [1, 2], elems = Axis [Axis [Elem 0, Elem 1]]\<rparr>,
      ''asym_id'' \<mapsto> \<lparr>shape = [1, 2], elems = Axis [Axis [Elem 1, Elem 2]]\<rparr>]"

definition ex_result :: ModelOutput where
  "ex_result =
     [''final_atom_mask'' \<mapsto> Arr (full [2, 1] 1),
      ''final_atom_positions'' \<mapsto> Arr (full [2, 1, 3] 0)]"

definition ex_protein :: Protein where
  "ex_protein =
     \<lparr>atom_positions = full [2, 1, 3] 0,
      aatype = \<lparr>shape = [2], elems = Axis [Elem 0, Elem 7]\<rparr>,
      atom_mask = full [2, 1] 1,
      residue_index = \<lparr>shape = [2], elems = Axis [Elem 1, Elem 2]\<rparr>,
      b_factors = full [2, 1] 0,
      chain_index = \<lparr>shape = [2], elems = Axis [Elem 1, Elem 2]\<rparr>,
      remark = None, parents = None, parents_chain_index = None\<rparr>"

definition ex_row :: "int tensor" where
  "ex_row = \<lparr>shape = [1, 4], elems = Axis [Axis [Elem 1, Elem 2, Elem 3, Elem 4]]\<rparr>"

definition ex_row_left :: "int tensor" where
  "ex_row_left = \<lparr>shape = [1, 2], elems = Axis [Axis [Elem 1, Elem 2]]\<rparr>"

definition ex_row_right :: "int tensor" where
  "ex_row_right = \<lparr>shape = [1, 2], elems = Axis [Axis [Elem 3, Elem 4]]\<rparr>"

definition ex_shard0 :: "int tensor" where
  "ex_shard0 = \<lparr>shape = [1, 1, 2, 1], elems = Axis [Axis [Axis [Axis [Elem 1], Axis [Elem 2]]]]\<rparr>"

definition ex_shard1 :: "int tensor" where
  "ex_shard1 = \<lparr>shape = [1, 1, 2, 1], elems = Axis [Axis [Axis [Axis [Elem 3], Axis [Elem 4]]]]\<rparr>"

definition ex_col0 :: "int tensor" where
  "ex_col0 = \<lparr>shape = [1, 2, 1, 1], elems = Axis [Axis [Axis [Axis [Elem 1]], Axis [Axis [Elem 3]]]]\<rparr>"

definition ex_col1 :: "int tensor" where
  "ex_col1 = \<lparr>shape = [1, 2, 1, 1], elems = Axis [Axis [Axis [Axis [Elem 2]], Axis [Axis [Elem 4]]]]\<rparr>"

definition ex_full :: "int tensor" where
  "ex_full = \<lparr>shape = [1, 2, 2, 1],
              elems = Axis [Axis [Axis [Axis [Elem 1], Axis [Elem 2]],
                                  Axis [Axis [Elem 3], Axis [Elem 4]]]]\<rparr>"

definition ex_env :: "nat env" where
  "ex_env = \<lparr>grp = \<lparr>world_size = 2, rank = 0\<rparr>,
             bias_peers = [full [1, 1, 2, 1] 0, full [1, 1, 2, 1] 5],
             node_peers = [full [1, 1, 2, 1] 0,
                           \<lparr>shape = [1, 1, 2, 1], elems = Axis [Axis [Axis [Axis [Elem 3], Axis [Elem 4]]]]\<rparr>],
             arrival = (\<lambda>r. 2 - r),
             uninit = full [1, 1, 2, 1] 99,
             bernoulli = (\<lambda>g p sh. (full sh (even g), Suc g))\<rparr>"

definition ex_row_module :: "bool \<Rightarrow> real tensor \<Rightarrow> MSARowAttentionWithPairBias" where
  "ex_row_module train bias =
     \<lparr>row_layernormM = Inr, row_layernormZ = Inr,
      linear_b_weights = \<lparr>shape = [1, 1], elems = Axis [Axis [Elem 1]]\<rparr>,
      row_attention = (\<lambda>M m b. Inr M), out_bias = bias, p_drop = 1 / 2, training = train\<rparr>"

definition ex_stack :: "bool \<Rightarrow> MSAStack" where
  "ex_stack train =
     \<lparr>msa_RowAttentionWithPairBias = ex_row_module train (full [1] 0),
      msa_ColumnAttention = \<lparr>col_layernormM = Inr, col_attention = (\<lambda>M m b. Inr M)\<rparr>,
      msa_Transition = \<lparr>feed_forward = Inr\<rparr>\<rparr>"

definition ex_extra_stack :: "bool \<Rightarrow> ExtraMSAStack" where
  "ex_extra_stack train =
     \<lparr>extra_RowAttentionWithPairBias = ex_row_module train (full [1] 0),
      extra_ColumnAttention = \<lparr>gcol_layernormM = Inr, global_attention = (\<lambda>M m. Inr M)\<rparr>,
      extra_Transition = \<lparr>feed_forward = Inr\<rparr>\<rparr>"

definition ex_node :: "real tensor" where
  "ex_node = \<lparr>shape = [1, 1, 2, 1], elems = Axis [Axis [Axis [Axis [Elem 1], Axis [Elem 2]]]]\<rparr>"

definition ex_pair :: "real tensor" where
  "ex_pair = \<lparr>shape = [1, 1, 2, 1], elems = Axis [Axis [Axis [Axis [Elem 7], Axis [Elem 8]]]]\<rparr>"

definition ex_mask :: "real tensor" where
  "ex_mask = full [1, 2, 2] 1"

definition ex_out :: "real tensor" where
  "ex_out = \<lparr>shape = [1, 2, 1, 1], elems = Axis [Axis [Axis [Axis [Elem 8]], Axis [Axis [Elem 12]]]]\<rparr>"

definition ex_mask_row :: "real tensor" where
  "ex_mask_row = full [1, 1, 2] 1"

definition ex_n1 :: "real tensor" where
  "ex_n1 = \<lparr>shape = [1, 1, 2, 1], elems = Axis [Axis [Axis [Axis [Elem 2], Axis [Elem 4]]]]\<rparr>"

definition ex_mask_col :: "real tensor" where
  "ex_mask_col = full [1, 2, 1] 1"

definition ex_zero_row :: "real tensor \<Rightarrow> MSARowAttentionWithPairBias" where
  "ex_zero_row bias =
     \<lparr>row_layernormM = Inr, row_layernormZ = Inr,
      linear_b_weights = \<lparr>shape = [1, 1], elems = Axis [Axis [Elem 1]]\<rparr>,
      row_attention = (\<lambda>M m b. Inr (full (shape M) 0)), out_bias = bias, p_drop = 1 / 2,
      training = False\<rparr>"

definition ex_zero_col :: MSAColumnAttention where
  "ex_zero_col = \<lparr>col_layernormM = Inr, col_attention = (\<lambda>M m b. Inr (full (shape M) 0))\<rparr>"

definition ex_zero_gcol :: MSAColumnGlobalAttention where
  "ex_zero_gcol = \<lparr>gcol_layernormM = Inr, global_attention = (\<lambda>M m. Inr (full (shape M) 0))\<rparr>"

definition ex_zero_transition :: Transition where
  "ex_zero_transition = \<lparr>feed_forward = (\<lambda>x. Inr (full (shape x) 0))\<rparr>"

definition ex_bias_full :: "real tensor" where
  "ex_bias_full = \<lparr>shape = [1, 2, 2, 1],
                   elems = Axis [Axis [Axis [Axis [Elem 7], Axis [Elem 8]],
                                       Axis [Axis [Elem 5], Axis [Elem 5]]]]\<rparr>"

definition ex_node_plus_bias :: "real tensor" where
  "ex_node_plus_bias = \<lparr>shape = [1, 1, 2, 1], elems = Axis [Axis [Axis [Axis [Elem 2], Axis [Elem 3]]]]\<rparr>"

definition ex_node_t :: "real tensor" where
  "ex_node_t = \<lparr>shape = [1, 2, 1, 1], elems = Axis [Axis [Axis [Axis [Elem 1]], Axis [Axis [Elem 2]]]]\<rparr>"

definition ex_mask_row_t :: "real tensor" where
  "ex_mask_row_t = full [1, 2, 1] 1"

definition ex_odd_shard :: "int tensor" where
  "ex_odd_shard = full [1, 1, 3, 1] 0"

definition ex_aatype :: "int tensor" where
  "ex_aatype = \<lparr>shape = [1, 2], elems = Axis [Axis [Elem 0, Elem 7]]\<rparr>"

definition ex_features_no_asym :: FeatureDict where
  "ex_features_no_asym =
     [''aatype'' \<mapsto> ex_aatype,
      ''residue_index'' \<mapsto> \<lparr>shape = [1, 2], elems = Axis [Axis [Elem 0, Elem 1]]\<rparr>]"

definition ex_protein_no_asym :: Protein where
  "ex_protein_no_asym =
     \<lparr>atom_positions = full [2, 1, 3] 0,
      aatype = \<lparr>shape = [2], elems = Axis [Elem 0, Elem 7]\<rparr>,
      atom_mask = full [2, 1] 1,
      residue_index = \<lparr>shape = [2], elems = Axis [Elem 1, Elem 2]\<rparr>,
      b_factors = full [2, 1] 0,
      chain_index = \<lparr>shape = [2], elems = Axis [Elem 0, Elem 0]\<rparr>,
      remark = None, parents = None, parents_chain_index = None\<rparr>"

definition ex_env3 :: "nat env" where
  "ex_env3 = \<lparr>grp = \<lparr>world_size = 3, rank = 1\<rparr>,
              bias_peers = [\<lparr>shape = [1, 1, 2, 1], elems = Axis [Axis [Axis [Axis [Elem 3], Axis [Elem 4]]]]\<rparr>,
                            full [1, 1, 2, 1] 0, full [1, 1, 2, 1] 5],
              node_peers = [],
              arrival = (\<lambda>r. 3 - r),
              uninit = full [1, 1, 2, 1] 99,
              bernoulli = (\<lambda>g p sh. (full sh (even g), Suc g))\<rparr>"

definition ex_bias_row :: MSARowAttentionWithPairBias where
  "ex_bias_row =
     \<lparr>row_layernormM = Inr, row_layernormZ = Inr,
      linear_b_weights = \<lparr>shape = [1, 1], elems = Axis [Axis [Elem 1]]\<rparr>,
      row_attention = (\<lambda>M m b. case b of None \<Rightarrow> Inr M
                        | Some bt \<Rightarrow> Inr (map_tensor (\<lambda>x. x + hd (flatten (elems bt))) M)),
      out_bias = full [1] 0, p_drop = 1 / 2, training = False\<rparr>"

definition ex_in_flight :: "real tensor list \<times> real work" where
  "ex_in_flight =
     ([full [1, 1, 2, 1] 99, ex_pair, full [1, 1, 2, 1] 99],
      Work 1 [(2, full [1, 1, 2, 1] 5),
              (0, \<lparr>shape = [1, 1, 2, 1], elems = Axis [Axis [Axis [Axis [Elem 3], Axis [Elem 4]]]]\<rparr>)])"

definition ex_bias3 :: "real tensor" where
  "ex_bias3 = \<lparr>shape = [1, 3, 2, 1],
               elems = Axis [Axis [Axis [Axis [Elem 3], Axis [Elem 4]],
                                   Axis [Axis [Elem 7], Axis [Elem 8]],
                                   Axis [Axis [Elem 5], Axis [Elem 5]]]]\<rparr>"

definition ex_node_bias3 :: "real tensor" where
  "ex_node_bias3 = \<lparr>shape = [1, 1, 2, 1], elems = Axis [Axis [Axis [Axis [Elem 5], Axis [Elem 7]]]]\<rparr>"

section \<open>Properties of np/protein.py\<close>

lemma bindE_Inr_iff: "bindE m f = Inr y \<longleftrightarrow> (\<exists>x. m = Inr x \<and> f x = Inr y)"
  by (cases m) (auto simp: bindE_def)

lemma bindE_Inr: "bindE (Inr x) f = f x"
  by (simp add: bindE_def)

lemma bindE_Inl: "bindE (Inl e) f = Inl e"
  by (simp add: bindE_def)

lemma PDB_MAX_CHAINS_62: "PDB_MAX_CHAINS = 62"
  by (simp add: PDB_MAX_CHAINS_def PDB_CHAIN_IDS_def)

lemma length_np_unique: "length (np_unique a) = card (set (flatten (elems a)))"
  by (simp add: np_unique_def length_remdups_card_conv)

text \<open>
  C9. Building a Protein whose \<open>chain_index\<close> holds more than 62 distinct values raises
  ValueError; with at most 62 distinct values the constructor does not raise and returns
  the Protein with the fields it was given.
\<close>

theorem Protein_init_max_chains:
  "Protein_init pos aa am ri bf ci rmk par pci =
     (if 62 < card (set (flatten (elems ci))) then Inl ValueError
      else Inr \<lparr>atom_positions = pos, aatype = aa, atom_mask = am, residue_index = ri,
                b_factors = bf, chain_index = ci, remark = rmk, parents = par,
                parents_chain_index = pci\<rparr>)"
  by (simp add: Protein_init_def Protein_post_init_def bindE_def length_np_unique
      PDB_MAX_CHAINS_62)

lemma card_chains63: "card (set (flatten (elems chains63))) = 63"
  unfolding chains63_def by code_simp

theorem Protein_init_max_chains_witness:
  "Protein_init (full [0, 37, 3] 0) (full [0] 0) (full [0, 37] 0) (full [0] 0) (full [0, 37] 0)
     chains63 None None None = Inl ValueError
   \<and> Protein_init (full [1, 1, 3] 0) (full [1] 0) (full [1, 1] 0) (full [1] 0) (full [1, 1] 0)
     (full [1] 0) None None None \<noteq> Inl ValueError"
  using Protein_init_max_chains[of "full [0, 37, 3] 0" "full [0] 0" "full [0, 37] 0"
      "full [0] 0" "full [0, 37] 0" chains63 None None None]
    Protein_init_max_chains[of "full [1, 1, 3] 0" "full [1] 0" "full [1, 1] 0" "full [1] 0"
      "full [1, 1] 0" "full [1] 0" None None None]
  by (simp add: card_chains63 full_def)

lemma Protein_init_chain_index:
  "Protein_init pos aa am ri bf ci rmk par pci = Inr p \<Longrightarrow> chain_index p = ci"
  by (auto simp: Protein_init_def Let_def bindE_Inr_iff)

lemma ex_from_prediction_no_asym:
  "from_prediction ex_features_no_asym ex_result None None None None None True
   = Inr ex_protein_no_asym"
  by (simp add: from_prediction_def ex_features_no_asym_def ex_aatype_def ex_result_def
      ex_protein_no_asym_def bindE_def
      py_getitem_def py_get_with_default_def as_array_def feature_getitem_def
      maybe_remove_leading_dim_def index0_def np_zeros_like_def map_tensor_def full_def
      Protein_init_def Protein_post_init_def np_unique_def PDB_MAX_CHAINS_def PDB_CHAIN_IDS_def)

text \<open>
  C10, as stated, says that without the feature \<open>asym_id\<close> the chain index is a zero
  array shaped like \<open>features['aatype']\<close>. With \<open>remove_leading_feature_dimension\<close> set,
  the zeros are shaped like \<open>features['aatype'][0]\<close>: for an \<open>aatype\<close> of shape \<open>[1, 2]\<close>
  the chain index has shape \<open>[2]\<close>.
\<close>

theorem from_prediction_zeros_not_shaped_like_aatype:
  "ex_features_no_asym ''asym_id'' = None
   \<and> ex_features_no_asym ''aatype'' = Some ex_aatype
   \<and> from_prediction ex_features_no_asym ex_result None None None None None True
       = Inr ex_protein_no_asym
   \<and> shape (chain_index ex_protein_no_asym) = [2]
   \<and> shape ex_aatype = [1, 2]
   \<and> chain_index ex_protein_no_asym \<noteq> np_zeros_like ex_aatype"
proof (intro conjI)
  show "from_prediction ex_features_no_asym ex_result None None None None None True
       = Inr ex_protein_no_asym"
    by (rule ex_from_prediction_no_asym)
qed (simp_all add: ex_features_no_asym_def ex_protein_no_asym_def ex_aatype_def
    np_zeros_like_def map_tensor_def)

text \<open>
  C10, amended. \<open>from_prediction\<close> ignores its argument \<open>chain_index\<close>: the call gives
  the same result (Protein or exception) for any two values of it. The Protein it returns
  has as \<open>chain_index\<close> the feature \<open>asym_id\<close> when that key is present, and otherwise
  zeros of the shape of the feature \<open>aatype\<close>; in both cases the leading axis of the
  feature is removed first when \<open>remove_leading_feature_dimension\<close> is set.
\<close>

theorem from_prediction_chain_index:
  "from_prediction features result bf ci rmk par pci rl
     = from_prediction features result bf ci' rmk par pci rl
   \<and> (from_prediction features result bf ci rmk par pci rl = Inr p
        \<longrightarrow> (case features ''asym_id'' of
               Some a \<Rightarrow> maybe_remove_leading_dim rl a = Inr (chain_index p)
             | None \<Rightarrow>
                 (\<exists>aa aa0. features ''aatype'' = Some aa
                    \<and> maybe_remove_leading_dim rl aa = Inr aa0
                    \<and> chain_index p = np_zeros_like aa0)))"
proof
  show "from_prediction features result bf ci rmk par pci rl
     = from_prediction features result bf ci' rmk par pci rl"
    by (simp add: from_prediction_def)
next
  show "from_prediction features result bf ci rmk par pci rl = Inr p
        \<longrightarrow> (case features ''asym_id'' of
               Some a \<Rightarrow> maybe_remove_leading_dim rl a = Inr (chain_index p)
             | None \<Rightarrow>
                 (\<exists>aa aa0. features ''aatype'' = Some aa
                    \<and> maybe_remove_leading_dim rl aa = Inr aa0
                    \<and> chain_index p = np_zeros_like aa0))"
  proof
    assume "from_prediction features result bf ci rmk par pci rl = Inr p"
    then obtain civ pos aa am ri bfv where
      c: "(case features ''asym_id'' of
               Some a \<Rightarrow> maybe_remove_leading_dim rl a
             | None \<Rightarrow>
                 bindE (feature_getitem features ''aatype'')
                   (\<lambda>aa. bindE (maybe_remove_leading_dim rl aa)
                     (\<lambda>aa0. Inr (np_zeros_like aa0)))) = Inr civ"
      and p: "Protein_init pos aa am ri bfv civ rmk par pci = Inr p"
      unfolding from_prediction_def Let_def bindE_Inr_iff by blast
    have "chain_index p = civ" using p by (rule Protein_init_chain_index)
    with c show "case features ''asym_id'' of
               Some a \<Rightarrow> maybe_remove_leading_dim rl a = Inr (chain_index p)
             | None \<Rightarrow>
                 (\<exists>aa aa0. features ''aatype'' = Some aa
                    \<and> maybe_remove_leading_dim rl aa = Inr aa0
                    \<and> chain_index p = np_zeros_like aa0)"
      by (auto simp: feature_getitem_def bindE_Inr_iff split: option.splits)
  qed
qed

lemma ex_from_prediction:
  "from_prediction ex_features ex_result None ci None None None True = Inr ex_protein"
  by (simp add: from_prediction_def ex_features_def ex_result_def ex_protein_def bindE_def
      py_getitem_def py_get_with_default_def as_array_def feature_getitem_def
      maybe_remove_leading_dim_def index0_def np_zeros_like_def map_tensor_def full_def
      Protein_init_def Protein_post_init_def np_unique_def PDB_MAX_CHAINS_def PDB_CHAIN_IDS_def)

theorem from_prediction_chain_index_witness:
  "from_prediction ex_features ex_result None (Some (full [2] 5)) None None None True
     = Inr ex_protein
   \<and> from_prediction ex_features ex_result None None None None None True = Inr ex_protein
   \<and> chain_index ex_protein = \<lparr>shape = [2], elems = Axis [Elem 1, Elem 2]\<rparr>
   \<and> index0 \<lparr>shape = [1, 2], elems = Axis [Axis [Elem 1, Elem 2]]\<rparr>
        = Inr (chain_index ex_protein)"
  using from_prediction_chain_index[of ex_features ex_result None "Some (full [2] 5)" None
      None None True None ex_protein]
  by (simp add: ex_from_prediction)
     (simp add: ex_features_def maybe_remove_leading_dim_def ex_protein_def)

section \<open>Properties of slicing and concatenation\<close>

lemma narrow_cat2_commute:
  "d1 \<noteq> d2 \<Longrightarrow> narrow_nd d2 s c (cat2_nd d1 a b) = cat2_nd d1 (narrow_nd d2 s c a) (narrow_nd d2 s c b)"
proof (induction d1 a b arbitrary: d2 rule: cat2_nd.induct)
  case (1 as bs)
  then obtain k where "d2 = Suc k" by (cases d2) auto
  then show ?case by simp
next
  case (2 d as bs)
  show ?case
  proof (cases d2)
    case 0
    then show ?thesis by (simp add: take_map drop_map take_zip drop_zip)
  next
    case (Suc k)
    with 2 have "k \<noteq> d" by simp
    have "\<And>x y. (x, y) \<in> set (zip as bs) \<Longrightarrow>
       narrow_nd k s c (cat2_nd d x y) = cat2_nd d (narrow_nd k s c x) (narrow_nd k s c y)"
      using 2(1) \<open>k \<noteq> d\<close> by (metis set_zip_leftD set_zip_rightD)
    then show ?thesis using Suc by (auto simp: zip_map_map)
  qed
qed simp_all

lemma narrow_cat_commute:
  "d1 \<noteq> d2 \<Longrightarrow> narrow_nd d2 s c (cat_nd d1 ts) = cat_nd d1 (map (narrow_nd d2 s c) ts)"
proof (induction d1 ts rule: cat_nd.induct)
  case (1 d)
  then show ?case by (cases d2) auto
next
  case (2 d t)
  then show ?case by simp
next
  case (3 d t v va)
  then show ?case by (simp add: narrow_cat2_commute)
qed

lemma cat_nd_0_Axis: "xss \<noteq> [] \<Longrightarrow> cat_nd 0 (map Axis xss) = Axis (concat xss)"
proof (induction xss)
  case Nil then show ?case by simp
next
  case (Cons xs xss)
  then show ?case by (cases xss) auto
qed

lemma cat_nd_Suc_Axis:
  "rs \<noteq> [] \<Longrightarrow> cat_nd (Suc d) (map (\<lambda>r. Axis (map (f r) ts)) rs)
     = Axis (map (\<lambda>t. cat_nd d (map (\<lambda>r. f r t) rs)) ts)"
proof (induction rs)
  case Nil then show ?case by simp
next
  case (Cons r rs)
  then show ?case by (cases rs) (auto simp: zip_map_map zip_same_conv_map)
qed

lemma concat_take_drop_blocks:
  "concat (map (\<lambda>r. take c (drop (b + r * c) xs)) [0..<w]) = take (w * c) (drop b xs)"
proof (induction w)
  case 0 then show ?case by simp
next
  case (Suc w)
  have "take (w * c + c) (drop b xs) = take (w * c) (drop b xs) @ take c (drop (w * c) (drop b xs))"
    by (rule take_add)
  then show ?case using Suc by (simp add: add.commute)
qed

lemma narrow_cat_roundtrip_nd:
  "has_shape sh t \<Longrightarrow> d < length sh \<Longrightarrow> sh ! d = w * c \<Longrightarrow> 0 < w \<Longrightarrow>
   cat_nd d (map (\<lambda>r. narrow_nd d (r * c) c t) [0..<w]) = t"
proof (induction d arbitrary: sh t)
  case 0
  then obtain n ns ts where sh: "sh = n # ns" and t: "t = Axis ts"
    by (cases sh; cases t) auto
  with 0 have len: "length ts = w * c" by simp
  have "cat_nd 0 (map (\<lambda>r. narrow_nd 0 (r * c) c t) [0..<w])
        = cat_nd 0 (map Axis (map (\<lambda>r. take c (drop (r * c) ts)) [0..<w]))"
    by (simp add: t comp_def)
  also have "\<dots> = Axis (concat (map (\<lambda>r. take c (drop (r * c) ts)) [0..<w]))"
    using \<open>0 < w\<close> by (intro cat_nd_0_Axis) simp
  also have "\<dots> = Axis (take (w * c) (drop 0 ts))"
    using concat_take_drop_blocks[of c 0 ts w] by simp
  finally show ?case using len t by simp
next
  case (Suc d)
  then obtain n ns ts where sh: "sh = n # ns" and t: "t = Axis ts"
    by (cases sh; cases t) auto
  with Suc.prems have ch: "\<And>x. x \<in> set ts \<Longrightarrow> has_shape ns x" and d: "d < length ns" and nd: "ns ! d = w * c"
    by (auto simp: list_all_iff)
  have "cat_nd (Suc d) (map (\<lambda>r. narrow_nd (Suc d) (r * c) c t) [0..<w])
      = cat_nd (Suc d) (map (\<lambda>r. Axis (map (\<lambda>x. narrow_nd d (r * c) c x) ts)) [0..<w])"
    by (simp add: t)
  also have "\<dots> = Axis (map (\<lambda>x. cat_nd d (map (\<lambda>r. narrow_nd d (r * c) c x) [0..<w])) ts)"
    using \<open>0 < w\<close> by (intro cat_nd_Suc_Axis) simp
  also have "\<dots> = Axis (map (\<lambda>x. x) ts)"
    using Suc.IH[OF ch d nd \<open>0 < w\<close>] by (simp cong: map_cong)
  finally show ?case by (simp add: t)
qed

lemma has_shape_narrow:
  "has_shape sh t \<Longrightarrow> d < length sh \<Longrightarrow> s + c \<le> sh ! d \<Longrightarrow>
   has_shape (sh[d := c]) (narrow_nd d s c t)"
proof (induction d arbitrary: sh t)
  case 0
  then show ?case by (cases sh; cases t) (auto simp: list_all_iff dest: in_set_takeD in_set_dropD)
next
  case (Suc d)
  then show ?case by (cases sh; cases t) (auto simp: list_all_iff)
qed

lemma has_shape_cat2:
  "has_shape sh a \<Longrightarrow> has_shape (sh[d := m]) b \<Longrightarrow> d < length sh \<Longrightarrow>
   has_shape (sh[d := sh ! d + m]) (cat2_nd d a b)"
proof (induction d arbitrary: sh a b)
  case 0
  then show ?case by (cases sh; cases a; cases b) (auto simp: list_all_iff)
next
  case (Suc d)
  then obtain n ns as bs where sh: "sh = n # ns" and a: "a = Axis as" and b: "b = Axis bs"
    by (cases sh; cases a; cases b) auto
  with Suc.prems have la: "length as = n" and lb: "length bs = n"
    and ha: "\<And>x. x \<in> set as \<Longrightarrow> has_shape ns x"
    and hb: "\<And>x. x \<in> set bs \<Longrightarrow> has_shape (ns[d := m]) x"
    and d: "d < length ns"
    by (auto simp: list_all_iff)
  have "\<And>x y. (x, y) \<in> set (zip as bs) \<Longrightarrow> has_shape (ns[d := ns ! d + m]) (cat2_nd d x y)"
    using Suc.IH ha hb d by (meson set_zip_leftD set_zip_rightD)
  then show ?case using la lb by (auto simp: sh a b list_all_iff)
qed

lemma has_shape_cat:
  "ts \<noteq> [] \<Longrightarrow> \<forall>t\<in>set ts. has_shape sh t \<Longrightarrow> d < length sh \<Longrightarrow>
   has_shape (sh[d := length ts * sh ! d]) (cat_nd d ts)"
proof (induction d ts rule: cat_nd.induct)
  case (1 d)
  then show ?case by simp
next
  case (2 d t)
  then show ?case by simp
next
  case (3 d t v va)
  then have "has_shape (sh[d := length (v # va) * sh ! d]) (cat_nd d (v # va))" by simp
  with 3 have "has_shape (sh[d := sh ! d + length (v # va) * sh ! d]) (cat2_nd d t (cat_nd d (v # va)))"
    by (intro has_shape_cat2) auto
  then show ?case by simp
qed

lemma narrow_cat2_first:
  "has_shape sh a \<Longrightarrow> has_shape (sh[d := m]) b \<Longrightarrow> d < length sh \<Longrightarrow>
   narrow_nd d 0 (sh ! d) (cat2_nd d a b) = a"
proof (induction d arbitrary: sh a b)
  case 0
  then show ?case by (cases sh; cases a; cases b) auto
next
  case (Suc d)
  then obtain n ns as bs where sh: "sh = n # ns" and a: "a = Axis as" and b: "b = Axis bs"
    by (cases sh; cases a; cases b) auto
  with Suc.prems have la: "length as = n" and lb: "length bs = n"
    and ha: "\<And>x. x \<in> set as \<Longrightarrow> has_shape ns x"
    and hb: "\<And>x. x \<in> set bs \<Longrightarrow> has_shape (ns[d := m]) x"
    and d: "d < length ns"
    by (auto simp: list_all_iff)
  have "\<And>x y. (x, y) \<in> set (zip as bs) \<Longrightarrow> narrow_nd d 0 (ns ! d) (cat2_nd d x y) = x"
    using Suc.IH ha hb d by (meson set_zip_leftD set_zip_rightD)
  then have "map (\<lambda>p. narrow_nd d 0 (ns ! d) (cat2_nd d (fst p) (snd p))) (zip as bs)
             = map fst (zip as bs)"
    by (intro map_cong) auto
  then show ?case using la lb by (simp add: sh a b comp_def case_prod_beta)
qed

lemma narrow_cat2_rest:
  "has_shape sh a \<Longrightarrow> has_shape (sh[d := m]) b \<Longrightarrow> d < length sh \<Longrightarrow>
   narrow_nd d (sh ! d + s) k (cat2_nd d a b) = narrow_nd d s k b"
proof (induction d arbitrary: sh a b)
  case 0
  then show ?case by (cases sh; cases a; cases b) auto
next
  case (Suc d)
  then obtain n ns as bs where sh: "sh = n # ns" and a: "a = Axis as" and b: "b = Axis bs"
    by (cases sh; cases a; cases b) auto
  with Suc.prems have la: "length as = n" and lb: "length bs = n"
    and ha: "\<And>x. x \<in> set as \<Longrightarrow> has_shape ns x"
    and hb: "\<And>x. x \<in> set bs \<Longrightarrow> has_shape (ns[d := m]) x"
    and d: "d < length ns"
    by (auto simp: list_all_iff)
  have "\<And>x y. (x, y) \<in> set (zip as bs) \<Longrightarrow>
          narrow_nd d (ns ! d + s) k (cat2_nd d x y) = narrow_nd d s k y"
    using Suc.IH ha hb d by (meson set_zip_leftD set_zip_rightD)
  then have "map (\<lambda>p. narrow_nd d (ns ! d + s) k (cat2_nd d (fst p) (snd p))) (zip as bs)
           = map (\<lambda>p. narrow_nd d s k (snd p)) (zip as bs)"
    by (intro map_cong) auto
  also have "\<dots> = map (narrow_nd d s k) (map snd (zip as bs))"
    by (simp add: comp_def)
  finally show ?case using la lb by (simp add: sh a b comp_def case_prod_beta)
qed

lemma narrow_full:
  "has_shape sh t \<Longrightarrow> d < length sh \<Longrightarrow> narrow_nd d 0 (sh ! d) t = t"
proof (induction d arbitrary: sh t)
  case 0
  then show ?case by (cases sh; cases t) auto
next
  case (Suc d)
  then show ?case by (cases sh; cases t) (auto simp: list_all_iff intro: map_idI)
qed

lemma narrow_cat_piece:
  "\<forall>t\<in>set ts. has_shape sh t \<Longrightarrow> d < length sh \<Longrightarrow> i < length ts \<Longrightarrow>
   narrow_nd d (i * sh ! d) (sh ! d) (cat_nd d ts) = ts ! i"
proof (induction d ts arbitrary: i rule: cat_nd.induct)
  case (1 d)
  then show ?case by simp
next
  case (2 d t)
  then show ?case by (simp add: narrow_full)
next
  case (3 d t v va)
  have rest: "has_shape (sh[d := length (v # va) * sh ! d]) (cat_nd d (v # va))"
    using 3(2,3) by (intro has_shape_cat) auto
  show ?case
  proof (cases i)
    case 0
    then show ?thesis using narrow_cat2_first[OF _ rest 3(3)] 3(2) by simp
  next
    case (Suc j)
    have "narrow_nd d (sh ! d + j * sh ! d) (sh ! d) (cat2_nd d t (cat_nd d (v # va)))
          = narrow_nd d (j * sh ! d) (sh ! d) (cat_nd d (v # va))"
      using narrow_cat2_rest[OF _ rest 3(3)] 3(2) by simp
    also have "\<dots> = (v # va) ! j"
      using 3 Suc by (intro 3(1)) auto
    finally show ?thesis using Suc by simp
  qed
qed

section \<open>Properties of the collective primitives\<close>

lemma mapE_Inr: "(\<And>x. x \<in> set xs \<Longrightarrow> f x = Inr (h x)) \<Longrightarrow> mapE f xs = Inr (map h xs)"
  by (induction xs) (auto simp: bindE_def)

lemma mapE_Inl: "x \<in> set xs \<Longrightarrow> (\<And>y. y \<in> set xs \<Longrightarrow> f y = Inl e) \<Longrightarrow> mapE f xs = Inl e"
  by (cases xs) (auto simp: bindE_def)

lemma sum_list_same: "(\<And>x. x \<in> set xs \<Longrightarrow> f x = (c::nat)) \<Longrightarrow> sum_list (map f xs) = length xs * c"
  by (induction xs) auto

lemma torch_cat_same_shape:
  assumes "ts \<noteq> []" and "\<And>t. t \<in> set ts \<Longrightarrow> shape t = sh" and "d < length sh"
  shows "torch_cat ts d = Inr \<lparr>shape = sh[d := length ts * sh ! d], elems = cat_nd d (map elems ts)\<rparr>"
proof -
  obtain t rest where ts: "ts = t # rest" using assms(1) by (cases ts) auto
  have "sum_list (map (\<lambda>u. shape u ! d) ts) = length ts * sh ! d"
    using assms(2) by (intro sum_list_same) simp
  moreover have "list_all (\<lambda>u. (shape u)[d := 0] = (shape t)[d := 0]) rest"
    using assms(2) ts by (simp add: list_all_iff)
  moreover have "shape t = sh" using assms(2) ts by simp
  ultimately show ?thesis using assms(3) ts by (simp add: torch_cat_def)
qed

lemma scatter_chunk:
  "d < length (shape t) \<Longrightarrow> shape t ! d mod w = 0 \<Longrightarrow>
   scatter \<lparr>world_size = w, rank = j\<rparr> t d = Inr (chunk w t d j)"
  by (simp add: scatter_def chunk_def Let_def)

lemma scatter_all_chunks:
  "d < length (shape t) \<Longrightarrow> shape t ! d mod w = 0 \<Longrightarrow>
   scatter_all w t d = Inr (map (chunk w t d) [0..<w])"
  unfolding scatter_all_def by (intro mapE_Inr scatter_chunk)

lemma torch_cat_chunks:
  assumes "well_formed t" and "d < length (shape t)" and "0 < w" and "shape t ! d mod w = 0"
  shows "torch_cat (map (chunk w t d) [0..<w]) d = Inr t"
proof -
  let ?c = "shape t ! d div w"
  let ?sh = "(shape t)[d := ?c]"
  have wc: "shape t ! d = w * ?c" using assms(4) by auto
  have "torch_cat (map (chunk w t d) [0..<w]) d
      = Inr \<lparr>shape = ?sh[d := length (map (chunk w t d) [0..<w]) * ?sh ! d],
              elems = cat_nd d (map elems (map (chunk w t d) [0..<w]))\<rparr>"
    using assms(2,3) by (intro torch_cat_same_shape) (auto simp: chunk_def)
  also have "?sh[d := length (map (chunk w t d) [0..<w]) * ?sh ! d] = shape t"
    using assms(2) wc by (simp add: list_update_same_conv)
  also have "map elems (map (chunk w t d) [0..<w])
      = map (\<lambda>r. narrow_nd d (r * ?c) ?c (elems t)) [0..<w]"
    by (simp add: chunk_def)
  also have "cat_nd d \<dots> = elems t"
    using assms(1,2,3) wc by (intro narrow_cat_roundtrip_nd[where sh = "shape t"]) (auto simp: well_formed_def)
  finally show ?thesis by simp
qed

lemma map_upt_update_id: "r < w \<Longrightarrow> (map f [0..<w])[r := f r] = map f [0..<w]"
  by (simp add: list_update_same_conv)

text \<open>
  C2. For a well-formed tensor and one of its axes, when the worker count divides the size
  along the axis, every worker's scatter succeeds and gathering the chunks along the same
  axis returns the tensor itself on every worker; when it does not divide the size,
  scatter fails on every worker with the configuration error.
\<close>

theorem scatter_gather_roundtrip:
  assumes "well_formed t" and "d < length (shape t)" and "0 < w"
  shows "(shape t ! d mod w = 0 \<longrightarrow>
            (\<exists>chunks. scatter_all w t d = Inr chunks \<and> length chunks = w \<and>
               (\<forall>r<w. scatter \<lparr>world_size = w, rank = r\<rparr> t d = Inr (chunks ! r) \<and>
                      gather \<lparr>world_size = w, rank = r\<rparr> chunks (chunks ! r) d = Inr t)))
       \<and> (shape t ! d mod w \<noteq> 0 \<longrightarrow>
            (\<forall>r<w. scatter \<lparr>world_size = w, rank = r\<rparr> t d = Inl ConfigurationError))"
proof (intro conjI impI)
  assume dv: "shape t ! d mod w = 0"
  let ?chunks = "map (chunk w t d) [0..<w]"
  have "scatter_all w t d = Inr ?chunks" using assms(2) dv by (rule scatter_all_chunks)
  moreover have "length ?chunks = w" by simp
  moreover have "\<forall>r<w. scatter \<lparr>world_size = w, rank = r\<rparr> t d = Inr (?chunks ! r) \<and>
                      gather \<lparr>world_size = w, rank = r\<rparr> ?chunks (?chunks ! r) d = Inr t"
    using torch_cat_chunks[OF assms dv] scatter_chunk[OF assms(2) dv]
    by (simp add: gather_def map_upt_update_id)
  ultimately show "\<exists>chunks. scatter_all w t d = Inr chunks \<and> length chunks = w \<and>
               (\<forall>r<w. scatter \<lparr>world_size = w, rank = r\<rparr> t d = Inr (chunks ! r) \<and>
                      gather \<lparr>world_size = w, rank = r\<rparr> chunks (chunks ! r) d = Inr t)"
    by blast
next
  assume "shape t ! d mod w \<noteq> 0"
  then show "\<forall>r<w. scatter \<lparr>world_size = w, rank = r\<rparr> t d = Inl ConfigurationError"
    using assms(2) by (simp add: scatter_def)
qed

lemma upt_2: "[0..<2] = [0, 1]"
  by (simp add: upt_conv_Cons)

lemma upt_3: "[0..<3] = [0, 1, 2]"
  by (simp add: upt_conv_Cons)

theorem scatter_gather_roundtrip_witness:
  "scatter \<lparr>world_size = 2, rank = 0\<rparr> ex_row 1 = Inr ex_row_left
   \<and> scatter \<lparr>world_size = 2, rank = 1\<rparr> ex_row 1 = Inr ex_row_right
   \<and> gather \<lparr>world_size = 2, rank = 0\<rparr> [ex_row_left, ex_row_right] ex_row_left 1 = Inr ex_row
   \<and> gather \<lparr>world_size = 2, rank = 1\<rparr> [ex_row_left, ex_row_right] ex_row_right 1 = Inr ex_row
   \<and> scatter \<lparr>world_size = 3, rank = 2\<rparr> ex_row 1 = Inl ConfigurationError"
proof -
  have wfr: "well_formed ex_row" and d: "1 < length (shape ex_row)"
    by (simp_all add: well_formed_def ex_row_def)
  have all: "scatter_all 2 ex_row 1 = Inr [ex_row_left, ex_row_right]"
    by (simp add: scatter_all_def upt_2 scatter_def bindE_def ex_row_def ex_row_left_def
        ex_row_right_def)
  have div2: "shape ex_row ! 1 mod 2 = 0" and ndiv3: "shape ex_row ! 1 mod 3 \<noteq> 0"
    by (simp_all add: ex_row_def)
  from scatter_gather_roundtrip[OF wfr d, of 2] div2 all
  have two: "\<forall>r<2. scatter \<lparr>world_size = 2, rank = r\<rparr> ex_row 1 = Inr ([ex_row_left, ex_row_right] ! r)
       \<and> gather \<lparr>world_size = 2, rank = r\<rparr> [ex_row_left, ex_row_right]
            ([ex_row_left, ex_row_right] ! r) 1 = Inr ex_row"
    by auto
  from scatter_gather_roundtrip[OF wfr d, of 3] ndiv3
  have three: "\<forall>r<3. scatter \<lparr>world_size = 3, rank = r\<rparr> ex_row 1 = Inl ConfigurationError"
    by auto
  have "scatter \<lparr>world_size = 2, rank = 0\<rparr> ex_row 1 = Inr ex_row_left"
    and "gather \<lparr>world_size = 2, rank = 0\<rparr> [ex_row_left, ex_row_right] ex_row_left 1 = Inr ex_row"
    using two[rule_format, of 0] by simp_all
  moreover have "scatter \<lparr>world_size = 2, rank = 1\<rparr> ex_row 1 = Inr ex_row_right"
    and "gather \<lparr>world_size = 2, rank = 1\<rparr> [ex_row_left, ex_row_right] ex_row_right 1 = Inr ex_row"
    using two[rule_format, of 1] by simp_all
  moreover from three have "scatter \<lparr>world_size = 3, rank = 2\<rparr> ex_row 1 = Inl ConfigurationError"
    by simp
  ultimately show ?thesis by simp
qed

lemma length_flatten_has_shape: "has_shape sh t \<Longrightarrow> length (flatten t) = prod_list sh"
proof (induction sh t rule: has_shape.induct)
  case (2 n ns ts)
  then have "\<And>x. x \<in> set ts \<Longrightarrow> length (flatten x) = prod_list ns"
    by (auto simp: list_all_iff)
  then have "sum_list (map (\<lambda>x. length (flatten x)) ts) = length ts * prod_list ns"
    by (intro sum_list_same) simp
  with 2 show ?case by (simp add: length_concat comp_def)
qed simp_all

lemma chunk_shape [simp]: "shape (chunk w t d j) = (shape t)[d := shape t ! d div w]"
  by (simp add: chunk_def)

lemma chunk_elems [simp]:
  "elems (chunk w t d j) = narrow_nd d (j * (shape t ! d div w)) (shape t ! d div w) (elems t)"
  by (simp add: chunk_def)

lemma well_formed_chunk:
  assumes "well_formed t" and "d < length (shape t)" and "shape t ! d mod w = 0" and "j < w"
  shows "well_formed (chunk w t d j)"
proof -
  let ?c = "shape t ! d div w"
  have "shape t ! d = w * ?c" using assms(3) by auto
  moreover have "j * ?c + ?c \<le> w * ?c"
    using assms(4) by (metis Suc_leI mult_Suc mult_le_mono1 add.commute)
  ultimately have "j * ?c + ?c \<le> shape t ! d" by simp
  then show ?thesis
    using assms(1,2) unfolding well_formed_def by (simp add: has_shape_narrow)
qed

lemma exchange_value:
  assumes "0 < w" and "length shards = w" and "\<And>s. s \<in> set shards \<Longrightarrow> shape s = sh"
    and "a < length sh" and "b < length sh" and "sh ! a mod w = 0"
  shows "bindE (mapE (\<lambda>s. scatter \<lparr>world_size = w, rank = j\<rparr> s a) shards)
           (\<lambda>fragments. torch_cat fragments b)
       = Inr \<lparr>shape = sh[a := sh ! a div w, b := w * (sh[a := sh ! a div w]) ! b],
               elems = cat_nd b (map (\<lambda>s. narrow_nd a (j * (sh ! a div w)) (sh ! a div w) (elems s))
                                  shards)\<rparr>"
proof -
  let ?c = "sh ! a div w"
  have fr: "mapE (\<lambda>s. scatter \<lparr>world_size = w, rank = j\<rparr> s a) shards
          = Inr (map (\<lambda>s. chunk w s a j) shards)"
    using assms(3,4,6) by (intro mapE_Inr scatter_chunk) auto
  have ne: "map (\<lambda>s. chunk w s a j) shards \<noteq> []" using assms(1,2) by auto
  have els: "map elems (map (\<lambda>s. chunk w s a j) shards)
      = map (\<lambda>s. narrow_nd a (j * ?c) ?c (elems s)) shards"
    using assms(3) by (auto simp: comp_def)
  have "torch_cat (map (\<lambda>s. chunk w s a j) shards) b
      = Inr \<lparr>shape = (sh[a := ?c])[b := length (map (\<lambda>s. chunk w s a j) shards) * (sh[a := ?c]) ! b],
              elems = cat_nd b (map elems (map (\<lambda>s. chunk w s a j) shards))\<rparr>"
    using ne assms(3,5) by (intro torch_cat_same_shape) auto
  then have "torch_cat (map (\<lambda>s. chunk w s a j) shards) b
      = Inr \<lparr>shape = sh[a := ?c, b := w * (sh[a := ?c]) ! b],
              elems = cat_nd b (map (\<lambda>s. narrow_nd a (j * ?c) ?c (elems s)) shards)\<rparr>"
    unfolding els using assms(2) by simp
  then show ?thesis
    by (simp only: fr bindE_Inr)
qed

lemma row_to_col_value:
  assumes "0 < w" and "length shards = w" and "\<And>s. s \<in> set shards \<Longrightarrow> shape s = sh"
    and "2 < length sh" and "sh ! 2 mod w = 0"
  shows "row_to_col \<lparr>world_size = w, rank = j\<rparr> shards (shards ! j) = Inr (col_of w sh shards j)"
proof -
  have id: "shards[j := shards ! j] = shards" by simp
  have "1 < length sh" using assms(4) by simp
  from exchange_value[OF assms(1,2,3,4) this assms(5), of j]
  show ?thesis by (simp add: row_to_col_def id col_of_def)
qed

lemma row_to_col_all_value:
  assumes "0 < w" and "length shards = w" and "\<And>s. s \<in> set shards \<Longrightarrow> shape s = sh"
    and "2 < length sh" and "sh ! 2 mod w = 0"
  shows "row_to_col_all w shards = Inr (map (col_of w sh shards) [0..<w])"
  unfolding row_to_col_all_def
  by (intro mapE_Inr row_to_col_value[OF assms])

lemma pieces_have_shape:
  assumes "\<And>s. s \<in> set shards \<Longrightarrow> has_shape sh (elems s)" and "2 < length sh"
    and "sh ! 2 mod w = 0" and "j < w"
  shows "\<forall>t\<in>set (map (\<lambda>s. narrow_nd 2 (j * (sh ! 2 div w)) (sh ! 2 div w) (elems s)) shards).
           has_shape (sh[2 := sh ! 2 div w]) t"
proof -
  let ?c = "sh ! 2 div w"
  have "sh ! 2 = w * ?c" using assms(3) by auto
  moreover have "j * ?c + ?c \<le> w * ?c"
    using assms(4) by (metis Suc_leI mult_Suc mult_le_mono1 add.commute)
  ultimately have "j * ?c + ?c \<le> sh ! 2" by simp
  then show ?thesis using assms(1,2) by (auto intro: has_shape_narrow)
qed

lemma well_formed_col_of:
  assumes "0 < w" and "length shards = w"
    and "\<And>s. s \<in> set shards \<Longrightarrow> has_shape sh (elems s)"
    and "2 < length sh" and "sh ! 2 mod w = 0" and "j < w"
  shows "well_formed (col_of w sh shards j)"
proof -
  let ?c = "sh ! 2 div w"
  let ?ps = "map (\<lambda>s. narrow_nd 2 (j * ?c) ?c (elems s)) shards"
  have "has_shape ((sh[2 := ?c])[1 := length ?ps * (sh[2 := ?c]) ! 1]) (cat_nd 1 ?ps)"
    using pieces_have_shape[OF assms(3,4,5,6)] assms(1,2,4)
    by (intro has_shape_cat) auto
  then show ?thesis using assms(2,4) by (simp add: well_formed_def col_of_def)
qed

lemma prod_list_col_shape:
  fixes sh :: "nat list"
  assumes "2 < length sh" and "sh ! 2 mod w = 0"
  shows "prod_list (sh[2 := sh ! 2 div w, 1 := w * sh ! 1]) = prod_list sh"
proof -
  obtain x y z rest where sh: "sh = x # y # z # rest"
    using assms(1) by (cases sh; cases "tl sh"; cases "tl (tl sh)") auto
  have "w dvd z" using assms(2) sh by (simp add: mod_eq_0_iff_dvd)
  then have "z = w * (z div w)" by simp
  then have "x * (w * y * (z div w * prod_list rest)) = x * (y * (z * prod_list rest))"
    by (metis mult.assoc mult.left_commute)
  then show ?thesis by (simp add: sh)
qed

lemma col_of_full:
  assumes "0 < w" and "length shards = w" and "\<And>s. s \<in> set shards \<Longrightarrow> shape s = sh"
    and "2 < length sh" and "sh ! 2 mod w = 0"
  shows "\<exists>full. torch_cat shards 1 = Inr full \<and>
           scatter_all w full 2 = Inr (map (col_of w sh shards) [0..<w])"
proof -
  let ?full = "\<lparr>shape = sh[1 := length shards * sh ! 1], elems = cat_nd 1 (map elems shards)\<rparr>"
  have ne: "shards \<noteq> []" using assms(1,2) by auto
  have cat: "torch_cat shards 1 = Inr ?full"
    using ne assms(3,4) by (intro torch_cat_same_shape) auto
  have ch: "chunk w ?full 2 j = col_of w sh shards j" for j
    using assms(2,4)
    by (simp add: chunk_def col_of_def narrow_cat_commute list_update_swap comp_def)
  have "scatter_all w ?full 2 = Inr (map (chunk w ?full 2) [0..<w])"
    using assms(4,5) by (intro scatter_all_chunks) auto
  then show ?thesis using cat ch by auto
qed

lemma col_to_row_value:
  assumes "0 < w" and "length shards = w"
    and "\<And>s. s \<in> set shards \<Longrightarrow> well_formed s \<and> shape s = sh"
    and "2 < length sh" and "sh ! 2 mod w = 0" and "i < w"
  shows "col_to_row \<lparr>world_size = w, rank = i\<rparr> (map (col_of w sh shards) [0..<w])
           (map (col_of w sh shards) [0..<w] ! i) = Inr (shards ! i)"
proof -
  let ?c = "sh ! 2 div w"
  let ?shc = "sh[2 := ?c, 1 := w * sh ! 1]"
  let ?cols = "map (col_of w sh shards) [0..<w]"
  have hs: "\<And>s. s \<in> set shards \<Longrightarrow> has_shape sh (elems s)"
    using assms(3) by (auto simp: well_formed_def)
  have si: "shards ! i \<in> set shards" using assms(2,6) by simp
  have id: "?cols[i := ?cols ! i] = ?cols" by simp
  have r: "?shc ! 1 div w = sh ! 1" and c: "?shc ! 2 = ?c" and m: "?shc ! 1 mod w = 0"
    using assms(1,4) by simp_all
  have wc: "w * ?c = sh ! 2" using assms(5) by (simp add: mod_eq_0_iff_dvd)
  have shb: "?shc[1 := sh ! 1, 2 := sh ! 2] = sh"
    using assms(4) by (simp add: list_eq_iff_nth_eq nth_list_update)
  have "bindE (mapE (\<lambda>s. scatter \<lparr>world_size = w, rank = i\<rparr> s 1) ?cols)
           (\<lambda>fragments. torch_cat fragments 2)
       = Inr \<lparr>shape = ?shc[1 := ?shc ! 1 div w, 2 := w * (?shc[1 := ?shc ! 1 div w]) ! 2],
               elems = cat_nd 2 (map (\<lambda>s. narrow_nd 1 (i * (?shc ! 1 div w)) (?shc ! 1 div w) (elems s))
                                  ?cols)\<rparr>"
    using assms(1,4) m by (intro exchange_value) (auto simp: col_of_def)
  also have "?shc[1 := ?shc ! 1 div w, 2 := w * (?shc[1 := ?shc ! 1 div w]) ! 2] = sh"
    using assms(1,4) shb by (simp add: r wc)
  also have "map (\<lambda>s. narrow_nd 1 (i * (?shc ! 1 div w)) (?shc ! 1 div w) (elems s)) ?cols
           = map (\<lambda>j. narrow_nd 2 (j * ?c) ?c (elems (shards ! i))) [0..<w]"
  proof (rule nth_equalityI)
    show "length (map (\<lambda>s. narrow_nd 1 (i * (?shc ! 1 div w)) (?shc ! 1 div w) (elems s)) ?cols)
        = length (map (\<lambda>j. narrow_nd 2 (j * ?c) ?c (elems (shards ! i))) [0..<w])" by simp
  next
    fix j assume "j < length (map (\<lambda>s. narrow_nd 1 (i * (?shc ! 1 div w)) (?shc ! 1 div w) (elems s)) ?cols)"
    then have j: "j < w" by simp
    let ?ps = "map (\<lambda>s. narrow_nd 2 (j * ?c) ?c (elems s)) shards"
    have "narrow_nd 1 (i * (sh[2 := ?c]) ! 1) ((sh[2 := ?c]) ! 1) (cat_nd 1 ?ps) = ?ps ! i"
      using pieces_have_shape[OF hs assms(4,5) j] assms(2,4,6)
      by (intro narrow_cat_piece) auto
    then have "narrow_nd 1 (i * sh ! 1) (sh ! 1) (cat_nd 1 ?ps)
             = narrow_nd 2 (j * ?c) ?c (elems (shards ! i))"
      using assms(2,6) by simp
    then show "map (\<lambda>s. narrow_nd 1 (i * (?shc ! 1 div w)) (?shc ! 1 div w) (elems s)) ?cols ! j
             = map (\<lambda>j. narrow_nd 2 (j * ?c) ?c (elems (shards ! i))) [0..<w] ! j"
      using j assms(1,4) by (simp add: col_of_def)
  qed
  also have "cat_nd 2 (map (\<lambda>j. narrow_nd 2 (j * ?c) ?c (elems (shards ! i))) [0..<w])
           = elems (shards ! i)"
    using hs[OF si] assms(1,4) wc
    by (intro narrow_cat_roundtrip_nd[where sh = sh]) auto
  finally have "bindE (mapE (\<lambda>s. scatter \<lparr>world_size = w, rank = i\<rparr> s 1) ?cols)
           (\<lambda>fragments. torch_cat fragments 2) = Inr (shards ! i)"
    using assms(3)[OF si] by simp
  then show ?thesis by (simp only: col_to_row_def id group.simps)
qed

lemma col_to_row_all_value:
  assumes "0 < w" and "length shards = w"
    and "\<And>s. s \<in> set shards \<Longrightarrow> well_formed s \<and> shape s = sh"
    and "2 < length sh" and "sh ! 2 mod w = 0"
  shows "col_to_row_all w (map (col_of w sh shards) [0..<w]) = Inr shards"
proof -
  have "col_to_row_all w (map (col_of w sh shards) [0..<w]) = Inr (map (\<lambda>i. shards ! i) [0..<w])"
    unfolding col_to_row_all_def
    using col_to_row_value[OF assms] by (intro mapE_Inr) simp
  moreover have "map (\<lambda>i. shards ! i) [0..<w] = shards"
    unfolding assms(2)[symmetric] by (rule map_nth)
  ultimately show ?thesis by simp
qed

lemma row_to_col_content:
  assumes "0 < w" and "length shards = w"
    and "\<forall>s\<in>set shards. well_formed s \<and> shape s = sh"
    and "2 < length sh" and "sh ! 2 mod w = 0"
  shows "\<exists>cols full.
           row_to_col_all w shards = Inr cols \<and> length cols = w
         \<and> (\<forall>j<w. well_formed (cols ! j)
                \<and> length (flatten (elems (cols ! j))) = length (flatten (elems (shards ! j))))
         \<and> torch_cat shards 1 = Inr full \<and> scatter_all w full 2 = Inr cols
         \<and> col_to_row_all w cols = Inr shards"
proof -
  let ?cols = "map (col_of w sh shards) [0..<w]"
  have sh: "\<And>s. s \<in> set shards \<Longrightarrow> shape s = sh"
    and hs: "\<And>s. s \<in> set shards \<Longrightarrow> has_shape sh (elems s)"
    and ws: "\<And>s. s \<in> set shards \<Longrightarrow> well_formed s \<and> shape s = sh"
    using assms(3) by (auto simp: well_formed_def)
  have 1: "row_to_col_all w shards = Inr ?cols"
    using assms(1,2) sh assms(4,5) by (rule row_to_col_all_value)
  have 2: "length ?cols = w" by simp
  have 3: "\<forall>j<w. well_formed (?cols ! j)
                \<and> length (flatten (elems (?cols ! j))) = length (flatten (elems (shards ! j)))"
  proof (intro allI impI)
    fix j assume j: "j < w"
    have wfc: "well_formed (col_of w sh shards j)"
      using assms(1,2) hs assms(4,5) j by (rule well_formed_col_of)
    then have "length (flatten (elems (col_of w sh shards j)))
             = prod_list (shape (col_of w sh shards j))"
      unfolding well_formed_def by (rule length_flatten_has_shape)
    also have "\<dots> = prod_list sh"
      using prod_list_col_shape[OF assms(4,5)] by (simp add: col_of_def)
    also have "\<dots> = length (flatten (elems (shards ! j)))"
      using hs[of "shards ! j"] assms(2) j by (simp add: length_flatten_has_shape)
    finally show "well_formed (?cols ! j)
                \<and> length (flatten (elems (?cols ! j))) = length (flatten (elems (shards ! j)))"
      using wfc j by simp
  qed
  obtain full where 4: "torch_cat shards 1 = Inr full" and 5: "scatter_all w full 2 = Inr ?cols"
    using col_of_full[OF assms(1,2) sh assms(4,5)] by blast
  have 6: "col_to_row_all w ?cols = Inr shards"
    using assms(1,2) ws assms(4,5) by (rule col_to_row_all_value)
  from 1 2 3 4 5 6 show ?thesis by blast
qed

lemma row_to_col_indivisible:
  assumes "0 < w" and "length shards = w" and "\<forall>s\<in>set shards. shape s = sh"
    and "2 < length sh" and "sh ! 2 mod w \<noteq> 0"
  shows "row_to_col \<lparr>world_size = w, rank = j\<rparr> shards (shards ! j) = Inl ConfigurationError"
proof -
  have id: "shards[j := shards ! j] = shards" by simp
  obtain s where s: "s \<in> set shards" using assms(1,2) by (cases shards) auto
  have "\<And>y. y \<in> set shards \<Longrightarrow>
          scatter \<lparr>world_size = w, rank = j\<rparr> y 2 = Inl ConfigurationError"
    using assms(3,4,5) by (simp add: scatter_def)
  with s have "mapE (\<lambda>s. scatter \<lparr>world_size = w, rank = j\<rparr> s 2) shards
             = Inl ConfigurationError"
    by (rule mapE_Inl)
  then show ?thesis by (simp add: row_to_col_def id bindE_Inl)
qed

text \<open>
  C3. Take a group of \<open>w\<close> workers that hold the row shards of a tensor: well formed, all
  of one shape, with at least three axes. When \<open>w\<close> divides the column count, row_to_col
  succeeds on every worker and keeps the whole content: each worker's output is well
  formed and has as many elements as its input; the outputs are the column chunks of the
  tensor that joins the row shards in rank order, so every element sits where its global
  row and column index put it; and the column-to-row exchange gives back exactly the row
  shards. When \<open>w\<close> does not divide the column count, the exchange produces nothing: it
  fails on every worker with the configuration error.
\<close>

theorem row_to_col_preserves_content:
  assumes "0 < w" and "length shards = w"
    and "\<forall>s\<in>set shards. well_formed s \<and> shape s = sh"
    and "2 < length sh"
  shows "(sh ! 2 mod w = 0 \<longrightarrow>
           (\<exists>cols full.
               row_to_col_all w shards = Inr cols \<and> length cols = w
             \<and> (\<forall>j<w. well_formed (cols ! j)
                    \<and> length (flatten (elems (cols ! j)))
                      = length (flatten (elems (shards ! j))))
             \<and> torch_cat shards 1 = Inr full \<and> scatter_all w full 2 = Inr cols
             \<and> col_to_row_all w cols = Inr shards))
       \<and> (sh ! 2 mod w \<noteq> 0 \<longrightarrow>
           (\<forall>j<w. row_to_col \<lparr>world_size = w, rank = j\<rparr> shards (shards ! j)
                    = Inl ConfigurationError))"
proof (intro conjI impI)
  assume "sh ! 2 mod w = 0"
  with assms show "\<exists>cols full.
               row_to_col_all w shards = Inr cols \<and> length cols = w
             \<and> (\<forall>j<w. well_formed (cols ! j)
                    \<and> length (flatten (elems (cols ! j)))
                      = length (flatten (elems (shards ! j))))
             \<and> torch_cat shards 1 = Inr full \<and> scatter_all w full 2 = Inr cols
             \<and> col_to_row_all w cols = Inr shards"
    by (rule row_to_col_content)
next
  assume nd: "sh ! 2 mod w \<noteq> 0"
  have "\<forall>s\<in>set shards. shape s = sh" using assms(3) by simp
  with assms(1,2) have "\<And>j. row_to_col \<lparr>world_size = w, rank = j\<rparr> shards (shards ! j)
                    = Inl ConfigurationError"
    using assms(4) nd by (rule row_to_col_indivisible)
  then show "\<forall>j<w. row_to_col \<lparr>world_size = w, rank = j\<rparr> shards (shards ! j)
                    = Inl ConfigurationError"
    by simp
qed

lemma numeral_2_Suc: "(2::nat) = Suc (Suc 0)" by simp

lemma ex_row_to_col_all: "row_to_col_all 2 [ex_shard0, ex_shard1] = Inr [ex_col0, ex_col1]"
  by (simp add: row_to_col_all_def row_to_col_def upt_2 scatter_def torch_cat_def bindE_def
      ex_shard0_def ex_shard1_def ex_col0_def ex_col1_def numeral_2_Suc)

theorem row_to_col_preserves_content_witness:
  "row_to_col_all 2 [ex_shard0, ex_shard1] = Inr [ex_col0, ex_col1]
   \<and> length (flatten (elems ex_col0)) = length (flatten (elems ex_shard0))
   \<and> length (flatten (elems ex_col1)) = length (flatten (elems ex_shard1))
   \<and> torch_cat [ex_shard0, ex_shard1] 1 = Inr ex_full
   \<and> scatter_all 2 ex_full 2 = Inr [ex_col0, ex_col1]
   \<and> col_to_row_all 2 [ex_col0, ex_col1] = Inr [ex_shard0, ex_shard1]
   \<and> row_to_col \<lparr>world_size = 2, rank = 1\<rparr> [ex_odd_shard, ex_odd_shard] ex_odd_shard
       = Inl ConfigurationError"
proof -
  have h: "\<forall>s\<in>set [ex_shard0, ex_shard1]. well_formed s \<and> shape s = [1, 1, 2, 1]"
    by (simp add: well_formed_def ex_shard0_def ex_shard1_def)
  have cat: "torch_cat [ex_shard0, ex_shard1] 1 = Inr ex_full"
    by (simp add: torch_cat_def ex_shard0_def ex_shard1_def ex_full_def)
  have "\<exists>cols full.
               row_to_col_all 2 [ex_shard0, ex_shard1] = Inr cols \<and> length cols = 2
             \<and> (\<forall>j<2. well_formed (cols ! j)
                    \<and> length (flatten (elems (cols ! j)))
                      = length (flatten (elems ([ex_shard0, ex_shard1] ! j))))
             \<and> torch_cat [ex_shard0, ex_shard1] 1 = Inr full \<and> scatter_all 2 full 2 = Inr cols
             \<and> col_to_row_all 2 cols = Inr [ex_shard0, ex_shard1]"
    using row_to_col_preserves_content[of 2 "[ex_shard0, ex_shard1]" "[1, 1, 2, 1]", OF _ _ h]
    by simp
  then obtain cols full where
    "row_to_col_all 2 [ex_shard0, ex_shard1] = Inr cols"
    "\<forall>j<2. well_formed (cols ! j)
         \<and> length (flatten (elems (cols ! j)))
           = length (flatten (elems ([ex_shard0, ex_shard1] ! j)))"
    "torch_cat [ex_shard0, ex_shard1] 1 = Inr full" "scatter_all 2 full 2 = Inr cols"
    "col_to_row_all 2 cols = Inr [ex_shard0, ex_shard1]"
    by auto
  moreover from this(1) have cols: "cols = [ex_col0, ex_col1]"
    by (simp add: ex_row_to_col_all)
  moreover from calculation(3) cat have "full = ex_full" by simp
  moreover have "row_to_col \<lparr>world_size = 2, rank = 1\<rparr> [ex_odd_shard, ex_odd_shard]
                   ([ex_odd_shard, ex_odd_shard] ! 1) = Inl ConfigurationError"
  proof -
    have o: "\<forall>s\<in>set [ex_odd_shard, ex_odd_shard]. well_formed s \<and> shape s = [1, 1, 3, 1]"
      by (simp add: well_formed_def ex_odd_shard_def full_def list_all_iff)
    from row_to_col_preserves_content[of 2 "[ex_odd_shard, ex_odd_shard]" "[1, 1, 3, 1]",
        OF _ _ o]
    have "\<forall>j<2. row_to_col \<lparr>world_size = 2, rank = j\<rparr> [ex_odd_shard, ex_odd_shard]
                   ([ex_odd_shard, ex_odd_shard] ! j) = Inl ConfigurationError"
      by simp
    from this[rule_format, of 1] show ?thesis by simp
  qed
  ultimately show ?thesis
    using cat by (auto simp: numeral_2_Suc less_Suc_eq)
qed

section \<open>Properties of model_acc/msa.py\<close>

subsection \<open>The asynchronous gather\<close>

lemma bindE_assoc: "bindE (bindE m f) k = bindE m (\<lambda>x. bindE (f x) k)"
  by (cases m) (simp_all add: bindE_def)

text \<open>
  Whatever the order in which the transfers complete, a slot ends up holding the piece of
  its rank when a transfer for it was in flight, and keeps its content otherwise.
\<close>

lemma length_fold_deliver [simp]: "length (fold deliver ts slots) = length slots"
  by (induction ts arbitrary: slots) (simp_all add: deliver_def)

lemma fold_deliver_nth:
  "i < length slots \<Longrightarrow>
   fold deliver (map (\<lambda>r. (r, ps ! r)) rs) slots ! i = (if i \<in> set rs then ps ! i else slots ! i)"
proof (induction rs arbitrary: slots)
  case Nil
  then show ?case by simp
next
  case (Cons r rs)
  have "i < length (deliver (r, ps ! r) slots)" using Cons.prems by (simp add: deliver_def)
  from Cons.IH[OF this] Cons.prems show ?case
    by (auto simp: deliver_def nth_list_update)
qed

lemma set_in_flight_order:
  "set (filter (\<lambda>r. r \<noteq> k) (sort_key f [0..<n])) = {0..<n} - {k}"
  by auto

lemma deliveries_fill_slots:
  "fold deliver
     (map (\<lambda>r. (r, peers ! r)) (filter (\<lambda>r. r \<noteq> k) (sort_key f [0..<length peers])))
     ((replicate (length peers) placeholder)[k := t])
   = peers[k := t]"
proof (rule nth_equalityI)
  show "length (fold deliver
     (map (\<lambda>r. (r, peers ! r)) (filter (\<lambda>r. r \<noteq> k) (sort_key f [0..<length peers])))
     ((replicate (length peers) placeholder)[k := t])) = length (peers[k := t])"
    by simp
next
  fix i
  assume "i < length (fold deliver
     (map (\<lambda>r. (r, peers ! r)) (filter (\<lambda>r. r \<noteq> k) (sort_key f [0..<length peers])))
     ((replicate (length peers) placeholder)[k := t]))"
  then have i: "i < length peers" by simp
  then have "i < length ((replicate (length peers) placeholder)[k := t])" by simp
  from fold_deliver_nth[OF this, of peers] i
  show "fold deliver
     (map (\<lambda>r. (r, peers ! r)) (filter (\<lambda>r. r \<noteq> k) (sort_key f [0..<length peers])))
     ((replicate (length peers) placeholder)[k := t]) ! i = peers[k := t] ! i"
    by (simp add: set_in_flight_order nth_list_update)
qed

lemma wait_gather_async:
  "bindE (gather_async g peers arr placeholder t d) wait = gather g peers t d"
  by (simp add: gather_async_def wait_def gather_def bindE_def Let_def deliveries_fill_slots)

lemma SelfAttention_in_flight:
  "bindE (gather_async g peers arr placeholder t d)
     (\<lambda>bw. SelfAttention core M M_mask (Some bw))
   = bindE (gather g peers t d) (\<lambda>b. core M M_mask (Some b))"
proof -
  have "bindE (gather_async g peers arr placeholder t d)
          (\<lambda>bw. SelfAttention core M M_mask (Some bw))
      = bindE (bindE (gather_async g peers arr placeholder t d) wait)
          (\<lambda>b. core M M_mask (Some b))"
    by (simp add: SelfAttention_def bindE_assoc)
  then show ?thesis by (simp add: wait_gather_async)
qed

lemma SelfAttention_in_flight_then:
  "bindE (gather_async g peers arr placeholder t d)
     (\<lambda>bw. bindE (SelfAttention core M M_mask (Some bw)) k)
   = bindE (gather g peers t d) (\<lambda>b. bindE (core M M_mask (Some b)) k)"
proof -
  have "bindE (gather_async g peers arr placeholder t d)
          (\<lambda>bw. bindE (SelfAttention core M M_mask (Some bw)) k)
      = bindE (bindE (gather_async g peers arr placeholder t d)
                 (\<lambda>bw. SelfAttention core M M_mask (Some bw))) k"
    by (rule bindE_assoc[symmetric])
  also have "\<dots> = bindE (bindE (gather g peers t d) (\<lambda>b. core M M_mask (Some b))) k"
    by (simp only: SelfAttention_in_flight)
  also have "\<dots> = bindE (gather g peers t d) (\<lambda>b. bindE (core M M_mask (Some b)) k)"
    by (rule bindE_assoc)
  finally show ?thesis .
qed

lemma MSARowAttentionWithPairBias_forward_eq_sync:
  "MSARowAttentionWithPairBias_forward e self M_raw Z M_mask rng
   = MSARowAttentionWithPairBias_forward_sync e self M_raw Z M_mask rng"
  by (simp add: MSARowAttentionWithPairBias_forward_def
      MSARowAttentionWithPairBias_forward_sync_def SelfAttention_in_flight_then)

text \<open>
  C6. For every tensor, axis and group, every content of the placeholder and every order
  in which the pieces of the peers arrive, waiting on what gather_async returns gives
  what the synchronous gather gives on the same inputs, error or tensor; and the row
  attention block, which hands the tensor that is not yet finalized and the handle to its
  attention, computes what it computes with the synchronously gathered bias.
\<close>

theorem gather_async_wait_is_gather:
  "bindE (gather_async g peers arr placeholder t d) wait = gather g peers t d
   \<and> MSARowAttentionWithPairBias_forward e self M_raw Z M_mask rng
       = MSARowAttentionWithPairBias_forward_sync e self M_raw Z M_mask rng"
proof
  show "bindE (gather_async g peers arr placeholder t d) wait = gather g peers t d"
    by (rule wait_gather_async)
next
  show "MSARowAttentionWithPairBias_forward e self M_raw Z M_mask rng
       = MSARowAttentionWithPairBias_forward_sync e self M_raw Z M_mask rng"
    by (rule MSARowAttentionWithPairBias_forward_eq_sync)
qed

text \<open>
  Three workers, seen from rank 1: the piece of rank 2 arrives before the piece of rank 0.
  Before the wait the slots of the peers hold the placeholder and do not join to the
  gathered bias; after it they do, and the attention kernel, which adds the first entry
  of the bias it is given, gives the same node as with the synchronous gather.
\<close>

theorem gather_async_wait_is_gather_witness:
  "gather_async (grp ex_env3) (bias_peers ex_env3) (arrival ex_env3) (uninit ex_env3) ex_pair 1
     = Inr ex_in_flight
   \<and> torch_cat (fst ex_in_flight) 1 \<noteq> Inr ex_bias3
   \<and> wait ex_in_flight = Inr ex_bias3
   \<and> gather (grp ex_env3) (bias_peers ex_env3) ex_pair 1 = Inr ex_bias3
   \<and> MSARowAttentionWithPairBias_forward ex_env3 ex_bias_row ex_node ex_pair ex_mask_row 0
       = Inr (ex_node_bias3, 0)
   \<and> MSARowAttentionWithPairBias_forward_sync ex_env3 ex_bias_row ex_node ex_pair ex_mask_row 0
       = Inr (ex_node_bias3, 0)"
proof -
  have a: "gather_async (grp ex_env3) (bias_peers ex_env3) (arrival ex_env3) (uninit ex_env3)
             ex_pair 1 = Inr ex_in_flight"
    by code_simp
  have g: "gather (grp ex_env3) (bias_peers ex_env3) ex_pair 1 = Inr ex_bias3"
    by code_simp
  have n: "torch_cat (fst ex_in_flight) 1 \<noteq> Inr ex_bias3"
    by code_simp
  have s: "MSARowAttentionWithPairBias_forward_sync ex_env3 ex_bias_row ex_node ex_pair
             ex_mask_row 0 = Inr (ex_node_bias3, 0)"
    by code_simp
  from gather_async_wait_is_gather[where g = "grp ex_env3" and peers = "bias_peers ex_env3"
      and arr = "arrival ex_env3" and placeholder = "uninit ex_env3" and t = ex_pair
      and d = 1 and e = ex_env3 and self = ex_bias_row and M_raw = ex_node
      and Z = ex_pair and M_mask = ex_mask_row and rng = 0]
  show ?thesis unfolding a g s using n by (simp add: bindE_def)
qed

subsection \<open>Shapes through the blocks\<close>

lemma bshape_rev_same: "bshape_rev xs xs = Some xs"
  by (induction xs) auto

lemma broadcast_shapes_same: "broadcast_shapes sh sh = Some sh"
  by (simp add: broadcast_shapes_def bshape_rev_same)

lemma torch_binop_same_shape:
  "shape a = shape b \<Longrightarrow> torch_binop f a b = Inr c \<Longrightarrow> shape c = shape a"
  by (auto simp: torch_binop_def broadcast_shapes_same)

lemma torch_add_same_shape:
  "shape a = shape b \<Longrightarrow> torch_add a b = Inr c \<Longrightarrow> shape c = shape a"
  unfolding torch_add_def by (rule torch_binop_same_shape)

lemma swap_shape_twice: "Suc d < length sh \<Longrightarrow> swap_shape d (swap_shape d sh) = sh"
  by (simp add: swap_shape_def list_eq_iff_nth_eq nth_list_update)

lemma length_swap_shape [simp]: "length (swap_shape d sh) = length sh"
  by (simp add: swap_shape_def)

lemma transpose_last_shape:
  "transpose_last t k = Inr u \<Longrightarrow>
   0 < k \<and> k < length (shape t) \<and> shape u = swap_shape (length (shape t) - (k + 1)) (shape t)"
  by (auto simp: transpose_last_def Let_def split: if_splits)

lemma transpose_back_shape:
  assumes "transpose_last t k = Inr u" and "shape v = shape u" and "transpose_last v k = Inr x"
  shows "shape x = shape t"
proof -
  from transpose_last_shape[OF assms(1)]
  have k: "0 < k" "k < length (shape t)"
    and u: "shape u = swap_shape (length (shape t) - (k + 1)) (shape t)" by auto
  from transpose_last_shape[OF assms(3)]
  have "shape x = swap_shape (length (shape v) - (k + 1)) (shape v)" by auto
  also have "\<dots> = swap_shape (length (shape t) - (k + 1)) (swap_shape (length (shape t) - (k + 1)) (shape t))"
    using assms(2) u by simp
  also have "\<dots> = shape t" using k by (intro swap_shape_twice) auto
  finally show ?thesis .
qed

lemma bindE_InrE:
  assumes "bindE m f = Inr y"
  obtains x where "m = Inr x" and "f x = Inr y"
  using assms by (cases m) (auto simp: bindE_def)

lemma MSAColumnAttention_forward_shape:
  assumes "MSAColumnAttention_forward self M_raw M_mask = Inr out"
    and "shape_preserving (col_layernormM self)" and "shape_preserving3 (col_attention self)"
  shows "shape out = shape M_raw"
proof -
  from assms(1) obtain M M1 M_mask1 M2 M3 where
    t: "transpose_last M_raw 2 = Inr M" and l: "col_layernormM self M = Inr M1"
    and a: "col_attention self M1 M_mask1 None = Inr M2" and b: "transpose_last M2 2 = Inr M3"
    and s: "torch_add M_raw M3 = Inr out"
    unfolding MSAColumnAttention_forward_def SelfAttention_def option.case
    by (elim bindE_InrE)
  have "shape M1 = shape M" using assms(2) l by (simp add: shape_preserving_def)
  moreover have "shape M2 = shape M1" using assms(3) a by (simp add: shape_preserving3_def)
  ultimately have "shape M2 = shape M" by simp
  with t have "shape M3 = shape M_raw" using b by (rule transpose_back_shape)
  then have "shape M_raw = shape M3" by simp
  then show ?thesis using s by (rule torch_add_same_shape)
qed

lemma MSAColumnGlobalAttention_forward_shape:
  assumes "MSAColumnGlobalAttention_forward self M_raw M_mask = Inr out"
    and "shape_preserving (gcol_layernormM self)" and "shape_preserving2 (global_attention self)"
  shows "shape out = shape M_raw"
proof -
  from assms(1) obtain M M1 M_mask1 M2 M3 where
    t: "transpose_last M_raw 2 = Inr M" and l: "gcol_layernormM self M = Inr M1"
    and a: "global_attention self M1 M_mask1 = Inr M2" and b: "transpose_last M2 2 = Inr M3"
    and s: "torch_add M_raw M3 = Inr out"
    unfolding MSAColumnGlobalAttention_forward_def
    by (elim bindE_InrE)
  have "shape M1 = shape M" using assms(2) l by (simp add: shape_preserving_def)
  moreover have "shape M2 = shape M1" using assms(3) a by (simp add: shape_preserving2_def)
  ultimately have "shape M2 = shape M" by simp
  with t have "shape M3 = shape M_raw" using b by (rule transpose_back_shape)
  then have "shape M_raw = shape M3" by simp
  then show ?thesis using s by (rule torch_add_same_shape)
qed

lemma Transition_forward_shape:
  assumes "Transition_forward self src = Inr out" and "shape_preserving (feed_forward self)"
  shows "shape out = shape src"
proof -
  from assms(1) obtain x where f: "feed_forward self src = Inr x" and s: "torch_add src x = Inr out"
    unfolding Transition_forward_def by (elim bindE_InrE)
  have "shape x = shape src" using assms(2) f by (simp add: shape_preserving_def)
  then have "shape src = shape x" by simp
  then show ?thesis using s by (rule torch_add_same_shape)
qed

lemma mapE_Inr_member:
  "mapE f xs = Inr ys \<Longrightarrow> x \<in> set xs \<Longrightarrow> \<exists>y. f x = Inr y"
  by (induction xs arbitrary: ys) (auto simp: bindE_Inr_iff)

lemma scatter_Inr_divides:
  "scatter g t d = Inr y \<Longrightarrow> d < length (shape t) \<and> shape t ! d mod world_size g = 0"
  by (auto simp: scatter_def split: if_splits)

lemma row_to_col_shape:
  assumes "row_to_col g peers t = Inr u"
    and "rank g < world_size g" and "length peers = world_size g"
    and "\<forall>s\<in>set peers. shape s = shape t"
  shows "2 < length (shape t) \<and> shape t ! 2 mod world_size g = 0
       \<and> shape u = (shape t)[2 := shape t ! 2 div world_size g, 1 := world_size g * shape t ! 1]"
proof -
  let ?shards = "peers[rank g := t]"
  let ?w = "world_size g"
  have g: "\<lparr>world_size = ?w, rank = rank g\<rparr> = g" by simp
  have len: "length ?shards = ?w" using assms(3) by simp
  have sh: "\<And>s. s \<in> set ?shards \<Longrightarrow> shape s = shape t"
    using assms(4) by (auto dest!: set_update_subset_insert[THEN subsetD])
  have t: "t \<in> set ?shards" using assms(2,3) by (simp add: set_update_memI)
  from assms(1) obtain fr where fr: "mapE (\<lambda>s. scatter g s 2) ?shards = Inr fr"
    unfolding row_to_col_def by (elim bindE_InrE)
  from mapE_Inr_member[OF fr t] obtain y where "scatter g t 2 = Inr y" by blast
  then have d: "2 < length (shape t)" and m: "shape t ! 2 mod ?w = 0"
    using scatter_Inr_divides by blast+
  have w: "0 < ?w" using assms(2) by simp
  have d1: "1 < length (shape t)" using d by simp
  from exchange_value[OF w len sh d d1 m, of "rank g"]
  have "row_to_col g peers t
      = Inr \<lparr>shape = (shape t)[2 := shape t ! 2 div ?w,
                               1 := ?w * ((shape t)[2 := shape t ! 2 div ?w]) ! 1],
              elems = cat_nd 1 (map (\<lambda>s. narrow_nd 2 (rank g * (shape t ! 2 div ?w))
                                       (shape t ! 2 div ?w) (elems s)) ?shards)\<rparr>"
    unfolding row_to_col_def g by simp
  with assms(1) have "shape u = (shape t)[2 := shape t ! 2 div ?w, 1 := ?w * shape t ! 1]"
    by auto
  with d m show ?thesis by simp
qed

subsection \<open>The steps of a forward pass\<close>

lemma MSAStack_forward_steps:
  assumes "MSAStack_forward e S node pair node_mask g = Inr (out, g')"
  obtains mask_row n1 n2 mask_col n3 where
    "scatter (grp e) node_mask 1 = Inr mask_row"
    "MSARowAttentionWithPairBias_forward e (msa_RowAttentionWithPairBias S) node pair mask_row g
       = Inr (n1, g')"
    "row_to_col (grp e) (node_peers e) n1 = Inr n2"
    "scatter (grp e) node_mask 2 = Inr mask_col"
    "MSAColumnAttention_forward (msa_ColumnAttention S) n2 mask_col = Inr n3"
    "Transition_forward (msa_Transition S) n3 = Inr out"
proof -
  from assms obtain mask_row node_g n2 mask_col n3 out' where
    1: "scatter (grp e) node_mask 1 = Inr mask_row"
    and 2: "MSARowAttentionWithPairBias_forward e (msa_RowAttentionWithPairBias S) node pair
              mask_row g = Inr node_g"
    and 3: "row_to_col (grp e) (node_peers e) (fst node_g) = Inr n2"
    and 4: "scatter (grp e) node_mask 2 = Inr mask_col"
    and 5: "MSAColumnAttention_forward (msa_ColumnAttention S) n2 mask_col = Inr n3"
    and 6: "Transition_forward (msa_Transition S) n3 = Inr out'"
    and 7: "Inr (out', snd node_g) = (Inr (out, g') :: error + real tensor \<times> 'a)"
    unfolding MSAStack_forward_def by (elim bindE_InrE)
  from 7 have "out' = out" and "node_g = (fst node_g, g')" by auto
  with 1 2 3 4 5 6 that show thesis by metis
qed

lemma ExtraMSAStack_forward_steps:
  assumes "ExtraMSAStack_forward e S node pair node_mask g = Inr (out, g')"
  obtains mask_row n1 n2 mask_col n3 where
    "scatter (grp e) node_mask 1 = Inr mask_row"
    "MSARowAttentionWithPairBias_forward e (extra_RowAttentionWithPairBias S) node pair mask_row g
       = Inr (n1, g')"
    "row_to_col (grp e) (node_peers e) n1 = Inr n2"
    "scatter (grp e) node_mask 2 = Inr mask_col"
    "MSAColumnGlobalAttention_forward (extra_ColumnAttention S) n2 mask_col = Inr n3"
    "Transition_forward (extra_Transition S) n3 = Inr out"
proof -
  from assms obtain mask_row node_g n2 mask_col n3 out' where
    1: "scatter (grp e) node_mask 1 = Inr mask_row"
    and 2: "MSARowAttentionWithPairBias_forward e (extra_RowAttentionWithPairBias S) node pair
              mask_row g = Inr node_g"
    and 3: "row_to_col (grp e) (node_peers e) (fst node_g) = Inr n2"
    and 4: "scatter (grp e) node_mask 2 = Inr mask_col"
    and 5: "MSAColumnGlobalAttention_forward (extra_ColumnAttention S) n2 mask_col = Inr n3"
    and 6: "Transition_forward (extra_Transition S) n3 = Inr out'"
    and 7: "Inr (out', snd node_g) = (Inr (out, g') :: error + real tensor \<times> 'a)"
    unfolding ExtraMSAStack_forward_def by (elim bindE_InrE)
  from 7 have "out' = out" and "node_g = (fst node_g, g')" by auto
  with 1 2 3 4 5 6 that show thesis by metis
qed

lemma row_to_col_column_sharded:
  assumes "row_to_col (grp e) (node_peers e) n1 = Inr n2" and "even_exchange e n1"
  shows "shape n2 = column_sharded_shape (world_size (grp e)) (shape n1)"
  using row_to_col_shape[OF assms(1)] assms(2)
  by (simp add: even_exchange_def column_sharded_shape_def)

text \<open>
  C4. A forward call of MSAStack that returns has run, in this order of data flow: the row
  attention with pair bias on the node with the row chunk of the mask; the row-to-column
  exchange of its result; the column attention (MSAColumnAttention, built on SelfAttention)
  on the exchanged node with the column chunk of the mask; the transition with its residual
  addition, whose result is returned. ExtraMSAStack does the same with
  MSAColumnGlobalAttention (built on GlobalAttention) as column attention. The exchanged
  node has the shape of a column shard when the exchange is even, and the returned node
  has that shape when the kernels of the column attention and of the transition preserve
  shapes.
\<close>

theorem stack_forward_sequence:
  "(MSAStack_forward e S node pair node_mask g = Inr (out, g') \<longrightarrow>
      (\<exists>mask_row n1 n2 mask_col n3.
          scatter (grp e) node_mask 1 = Inr mask_row
        \<and> MSARowAttentionWithPairBias_forward e (msa_RowAttentionWithPairBias S) node pair
            mask_row g = Inr (n1, g')
        \<and> row_to_col (grp e) (node_peers e) n1 = Inr n2
        \<and> scatter (grp e) node_mask 2 = Inr mask_col
        \<and> MSAColumnAttention_forward (msa_ColumnAttention S) n2 mask_col = Inr n3
        \<and> Transition_forward (msa_Transition S) n3 = Inr out
        \<and> (even_exchange e n1 \<longrightarrow>
             shape n2 = column_sharded_shape (world_size (grp e)) (shape n1))
        \<and> (shape_preserving (col_layernormM (msa_ColumnAttention S))
             \<and> shape_preserving3 (col_attention (msa_ColumnAttention S))
             \<and> shape_preserving (feed_forward (msa_Transition S)) \<longrightarrow>
             shape out = shape n2)))
   \<and> (ExtraMSAStack_forward e X node pair node_mask g = Inr (out, g') \<longrightarrow>
      (\<exists>mask_row n1 n2 mask_col n3.
          scatter (grp e) node_mask 1 = Inr mask_row
        \<and> MSARowAttentionWithPairBias_forward e (extra_RowAttentionWithPairBias X) node pair
            mask_row g = Inr (n1, g')
        \<and> row_to_col (grp e) (node_peers e) n1 = Inr n2
        \<and> scatter (grp e) node_mask 2 = Inr mask_col
        \<and> MSAColumnGlobalAttention_forward (extra_ColumnAttention X) n2 mask_col = Inr n3
        \<and> Transition_forward (extra_Transition X) n3 = Inr out
        \<and> (even_exchange e n1 \<longrightarrow>
             shape n2 = column_sharded_shape (world_size (grp e)) (shape n1))
        \<and> (shape_preserving (gcol_layernormM (extra_ColumnAttention X))
             \<and> shape_preserving2 (global_attention (extra_ColumnAttention X))
             \<and> shape_preserving (feed_forward (extra_Transition X)) \<longrightarrow>
             shape out = shape n2)))"
proof (intro conjI impI)
  assume "MSAStack_forward e S node pair node_mask g = Inr (out, g')"
  then obtain mask_row n1 n2 mask_col n3 where
    1: "scatter (grp e) node_mask 1 = Inr mask_row"
    and 2: "MSARowAttentionWithPairBias_forward e (msa_RowAttentionWithPairBias S) node pair
              mask_row g = Inr (n1, g')"
    and 3: "row_to_col (grp e) (node_peers e) n1 = Inr n2"
    and 4: "scatter (grp e) node_mask 2 = Inr mask_col"
    and 5: "MSAColumnAttention_forward (msa_ColumnAttention S) n2 mask_col = Inr n3"
    and 6: "Transition_forward (msa_Transition S) n3 = Inr out"
    by (rule MSAStack_forward_steps)
  have 7: "even_exchange e n1 \<longrightarrow>
             shape n2 = column_sharded_shape (world_size (grp e)) (shape n1)"
    using row_to_col_column_sharded[OF 3] by blast
  have 8: "shape_preserving (col_layernormM (msa_ColumnAttention S))
             \<and> shape_preserving3 (col_attention (msa_ColumnAttention S))
             \<and> shape_preserving (feed_forward (msa_Transition S)) \<longrightarrow>
             shape out = shape n2"
    using MSAColumnAttention_forward_shape[OF 5] Transition_forward_shape[OF 6] by simp
  from 1 2 3 4 5 6 7 8
  show "\<exists>mask_row n1 n2 mask_col n3.
          scatter (grp e) node_mask 1 = Inr mask_row
        \<and> MSARowAttentionWithPairBias_forward e (msa_RowAttentionWithPairBias S) node pair
            mask_row g = Inr (n1, g')
        \<and> row_to_col (grp e) (node_peers e) n1 = Inr n2
        \<and> scatter (grp e) node_mask 2 = Inr mask_col
        \<and> MSAColumnAttention_forward (msa_ColumnAttention S) n2 mask_col = Inr n3
        \<and> Transition_forward (msa_Transition S) n3 = Inr out
        \<and> (even_exchange e n1 \<longrightarrow>
             shape n2 = column_sharded_shape (world_size (grp e)) (shape n1))
        \<and> (shape_preserving (col_layernormM (msa_ColumnAttention S))
             \<and> shape_preserving3 (col_attention (msa_ColumnAttention S))
             \<and> shape_preserving (feed_forward (msa_Transition S)) \<longrightarrow>
             shape out = shape n2)"
    by blast
next
  assume "ExtraMSAStack_forward e X node pair node_mask g = Inr (out, g')"
  then obtain mask_row n1 n2 mask_col n3 where
    1: "scatter (grp e) node_mask 1 = Inr mask_row"
    and 2: "MSARowAttentionWithPairBias_forward e (extra_RowAttentionWithPairBias X) node pair
              mask_row g = Inr (n1, g')"
    and 3: "row_to_col (grp e) (node_peers e) n1 = Inr n2"
    and 4: "scatter (grp e) node_mask 2 = Inr mask_col"
    and 5: "MSAColumnGlobalAttention_forward (extra_ColumnAttention X) n2 mask_col = Inr n3"
    and 6: "Transition_forward (extra_Transition X) n3 = Inr out"
    by (rule ExtraMSAStack_forward_steps)
  have 7: "even_exchange e n1 \<longrightarrow>
             shape n2 = column_sharded_shape (world_size (grp e)) (shape n1)"
    using row_to_col_column_sharded[OF 3] by blast
  have 8: "shape_preserving (gcol_layernormM (extra_ColumnAttention X))
             \<and> shape_preserving2 (global_attention (extra_ColumnAttention X))
             \<and> shape_preserving (feed_forward (extra_Transition X)) \<longrightarrow>
             shape out = shape n2"
    using MSAColumnGlobalAttention_forward_shape[OF 5] Transition_forward_shape[OF 6] by simp
  from 1 2 3 4 5 6 7 8
  show "\<exists>mask_row n1 n2 mask_col n3.
          scatter (grp e) node_mask 1 = Inr mask_row
        \<and> MSARowAttentionWithPairBias_forward e (extra_RowAttentionWithPairBias X) node pair
            mask_row g = Inr (n1, g')
        \<and> row_to_col (grp e) (node_peers e) n1 = Inr n2
        \<and> scatter (grp e) node_mask 2 = Inr mask_col
        \<and> MSAColumnGlobalAttention_forward (extra_ColumnAttention X) n2 mask_col = Inr n3
        \<and> Transition_forward (extra_Transition X) n3 = Inr out
        \<and> (even_exchange e n1 \<longrightarrow>
             shape n2 = column_sharded_shape (world_size (grp e)) (shape n1))
        \<and> (shape_preserving (gcol_layernormM (extra_ColumnAttention X))
             \<and> shape_preserving2 (global_attention (extra_ColumnAttention X))
             \<and> shape_preserving (feed_forward (extra_Transition X)) \<longrightarrow>
             shape out = shape n2)"
    by blast
qed

lemma ex_forward: "MSAStack_forward ex_env (ex_stack False) ex_node ex_pair ex_mask 0 = Inr (ex_out, 0)"
  by code_simp

lemma ex_extra_forward:
  "ExtraMSAStack_forward ex_env (ex_extra_stack False) ex_node ex_pair ex_mask 0 = Inr (ex_out, 0)"
  by code_simp

lemma ex_scatter_mask_row: "scatter (grp ex_env) ex_mask 1 = Inr ex_mask_row"
  by code_simp

lemma ex_row_forward:
  "MSARowAttentionWithPairBias_forward ex_env (msa_RowAttentionWithPairBias (ex_stack False))
     ex_node ex_pair ex_mask_row 0 = Inr (ex_n1, 0)"
  by code_simp

lemma ex_even_exchange: "even_exchange ex_env ex_n1"
  by (simp add: even_exchange_def ex_env_def ex_n1_def full_def)

lemma shape_preserving_Inr: "shape_preserving Inr"
  by (simp add: shape_preserving_def)

lemma ex_kernels_shape_preserving:
  "shape_preserving (col_layernormM (msa_ColumnAttention (ex_stack False)))
   \<and> shape_preserving3 (col_attention (msa_ColumnAttention (ex_stack False)))
   \<and> shape_preserving (feed_forward (msa_Transition (ex_stack False)))"
  "shape_preserving (gcol_layernormM (extra_ColumnAttention (ex_extra_stack False)))
   \<and> shape_preserving2 (global_attention (extra_ColumnAttention (ex_extra_stack False)))
   \<and> shape_preserving (feed_forward (extra_Transition (ex_extra_stack False)))"
  by (simp_all add: ex_stack_def ex_extra_stack_def shape_preserving_def shape_preserving2_def
      shape_preserving3_def)

theorem stack_forward_sequence_witness:
  "MSAStack_forward ex_env (ex_stack False) ex_node ex_pair ex_mask 0 = Inr (ex_out, 0)
   \<and> ExtraMSAStack_forward ex_env (ex_extra_stack False) ex_node ex_pair ex_mask 0
       = Inr (ex_out, 0)
   \<and> even_exchange ex_env ex_n1
   \<and> shape ex_out = column_sharded_shape 2 (shape ex_n1)
   \<and> shape ex_out = [1, 2, 1, 1]"
proof -
  from stack_forward_sequence[of ex_env "ex_stack False" ex_node ex_pair ex_mask 0 ex_out 0
      "ex_extra_stack False", THEN conjunct1, rule_format, OF ex_forward]
  obtain mask_row n1 and n2 :: "real tensor" where
    1: "scatter (grp ex_env) ex_mask 1 = Inr mask_row"
    and 2: "MSARowAttentionWithPairBias_forward ex_env
              (msa_RowAttentionWithPairBias (ex_stack False)) ex_node ex_pair mask_row 0
            = Inr (n1, 0)"
    and 3: "even_exchange ex_env n1 \<longrightarrow>
             shape n2 = column_sharded_shape (world_size (grp ex_env)) (shape n1)"
    and 4: "shape_preserving (col_layernormM (msa_ColumnAttention (ex_stack False)))
             \<and> shape_preserving3 (col_attention (msa_ColumnAttention (ex_stack False)))
             \<and> shape_preserving (feed_forward (msa_Transition (ex_stack False))) \<longrightarrow>
             shape ex_out = shape n2"
    by blast
  from 1[unfolded ex_scatter_mask_row] have mr: "mask_row = ex_mask_row" by simp
  from 2[unfolded mr ex_row_forward] have "n1 = ex_n1" by simp
  with 3 4 ex_even_exchange ex_kernels_shape_preserving(1)
  have "shape ex_out = column_sharded_shape 2 (shape ex_n1)"
    by (simp add: ex_env_def)
  moreover have "shape ex_out = [1, 2, 1, 1]" by (simp add: ex_out_def)
  ultimately show ?thesis
    using ex_forward ex_extra_forward ex_even_exchange by simp
qed

subsection \<open>The column mask\<close>

lemma scatter_Inr_chunk:
  "scatter g t d = Inr y \<Longrightarrow>
   d < length (shape t) \<and> shape t ! d mod world_size g = 0
   \<and> y = chunk (world_size g) t d (rank g)"
  by (auto simp: scatter_def chunk_def Let_def split: if_splits)

lemma MSAColumnAttention_forward_kernel_mask:
  assumes "MSAColumnAttention_forward self M_raw M_mask = Inr out"
  shows "\<exists>x m y. transpose_last M_mask 1 = Inr m \<and> col_attention self x m None = Inr y"
proof -
  from assms obtain M M1 M_mask1 M2 where
    "transpose_last M_mask 1 = Inr M_mask1" "col_attention self M1 M_mask1 None = Inr M2"
    unfolding MSAColumnAttention_forward_def SelfAttention_def option.case
    by (elim bindE_InrE)
  then show ?thesis by blast
qed

lemma MSAColumnGlobalAttention_forward_kernel_mask:
  assumes "MSAColumnGlobalAttention_forward self M_raw M_mask = Inr out"
  shows "\<exists>x m y. transpose_last M_mask 1 = Inr m \<and> global_attention self x m = Inr y"
proof -
  from assms obtain M M1 M_mask1 M2 where
    "transpose_last M_mask 1 = Inr M_mask1" "global_attention self M1 M_mask1 = Inr M2"
    unfolding MSAColumnGlobalAttention_forward_def
    by (elim bindE_InrE)
  then show ?thesis by blast
qed

text \<open>
  C5. In a forward call of MSAStack or ExtraMSAStack that returns, the mask given to the
  column attention is the chunk of this worker's rank of the original full node mask along
  axis 2, obtained by scatter: a function of the mask, the group size and the rank alone,
  with no exchange between workers; the attention kernel receives its transpose.
\<close>

theorem column_mask_from_original_mask:
  "(MSAStack_forward e S node pair node_mask g = Inr (out, g') \<longrightarrow>
      2 < length (shape node_mask) \<and> shape node_mask ! 2 mod world_size (grp e) = 0
      \<and> (\<exists>mask_col n1 n2 n3 x m y.
            mask_col = chunk (world_size (grp e)) node_mask 2 (rank (grp e))
          \<and> scatter (grp e) node_mask 2 = Inr mask_col
          \<and> row_to_col (grp e) (node_peers e) n1 = Inr n2
          \<and> MSAColumnAttention_forward (msa_ColumnAttention S) n2 mask_col = Inr n3
          \<and> transpose_last mask_col 1 = Inr m
          \<and> col_attention (msa_ColumnAttention S) x m None = Inr y
          \<and> Transition_forward (msa_Transition S) n3 = Inr out))
   \<and> (ExtraMSAStack_forward e X node pair node_mask g = Inr (out, g') \<longrightarrow>
      2 < length (shape node_mask) \<and> shape node_mask ! 2 mod world_size (grp e) = 0
      \<and> (\<exists>mask_col n1 n2 n3 x m y.
            mask_col = chunk (world_size (grp e)) node_mask 2 (rank (grp e))
          \<and> scatter (grp e) node_mask 2 = Inr mask_col
          \<and> row_to_col (grp e) (node_peers e) n1 = Inr n2
          \<and> MSAColumnGlobalAttention_forward (extra_ColumnAttention X) n2 mask_col = Inr n3
          \<and> transpose_last mask_col 1 = Inr m
          \<and> global_attention (extra_ColumnAttention X) x m = Inr y
          \<and> Transition_forward (extra_Transition X) n3 = Inr out))"
proof (intro conjI impI)
  assume a: "MSAStack_forward e S node pair node_mask g = Inr (out, g')"
  then obtain mask_row n1 n2 mask_col n3 where
    3: "row_to_col (grp e) (node_peers e) n1 = Inr n2"
    and 4: "scatter (grp e) node_mask 2 = Inr mask_col"
    and 5: "MSAColumnAttention_forward (msa_ColumnAttention S) n2 mask_col = Inr n3"
    and 6: "Transition_forward (msa_Transition S) n3 = Inr out"
    by (rule MSAStack_forward_steps)
  from scatter_Inr_chunk[OF 4]
  have d: "2 < length (shape node_mask)" and m: "shape node_mask ! 2 mod world_size (grp e) = 0"
    and c: "mask_col = chunk (world_size (grp e)) node_mask 2 (rank (grp e))" by auto
  from MSAColumnAttention_forward_kernel_mask[OF 5] obtain x mt y where
    7: "transpose_last mask_col 1 = Inr mt"
    and 8: "col_attention (msa_ColumnAttention S) x mt None = Inr y" by blast
  show "2 < length (shape node_mask)" by (rule d)
  show "shape node_mask ! 2 mod world_size (grp e) = 0" by (rule m)
  from c 3 4 5 6 7 8
  show "\<exists>mask_col n1 n2 n3 x m y.
            mask_col = chunk (world_size (grp e)) node_mask 2 (rank (grp e))
          \<and> scatter (grp e) node_mask 2 = Inr mask_col
          \<and> row_to_col (grp e) (node_peers e) n1 = Inr n2
          \<and> MSAColumnAttention_forward (msa_ColumnAttention S) n2 mask_col = Inr n3
          \<and> transpose_last mask_col 1 = Inr m
          \<and> col_attention (msa_ColumnAttention S) x m None = Inr y
          \<and> Transition_forward (msa_Transition S) n3 = Inr out"
    by blast
next
  assume a: "ExtraMSAStack_forward e X node pair node_mask g = Inr (out, g')"
  then obtain mask_row n1 n2 mask_col n3 where
    3: "row_to_col (grp e) (node_peers e) n1 = Inr n2"
    and 4: "scatter (grp e) node_mask 2 = Inr mask_col"
    and 5: "MSAColumnGlobalAttention_forward (extra_ColumnAttention X) n2 mask_col = Inr n3"
    and 6: "Transition_forward (extra_Transition X) n3 = Inr out"
    by (rule ExtraMSAStack_forward_steps)
  from scatter_Inr_chunk[OF 4]
  have d: "2 < length (shape node_mask)" and m: "shape node_mask ! 2 mod world_size (grp e) = 0"
    and c: "mask_col = chunk (world_size (grp e)) node_mask 2 (rank (grp e))" by auto
  from MSAColumnGlobalAttention_forward_kernel_mask[OF 5] obtain x mt y where
    7: "transpose_last mask_col 1 = Inr mt"
    and 8: "global_attention (extra_ColumnAttention X) x mt = Inr y" by blast
  show "2 < length (shape node_mask)" by (rule d)
  show "shape node_mask ! 2 mod world_size (grp e) = 0" by (rule m)
  from c 3 4 5 6 7 8
  show "\<exists>mask_col n1 n2 n3 x m y.
            mask_col = chunk (world_size (grp e)) node_mask 2 (rank (grp e))
          \<and> scatter (grp e) node_mask 2 = Inr mask_col
          \<and> row_to_col (grp e) (node_peers e) n1 = Inr n2
          \<and> MSAColumnGlobalAttention_forward (extra_ColumnAttention X) n2 mask_col = Inr n3
          \<and> transpose_last mask_col 1 = Inr m
          \<and> global_attention (extra_ColumnAttention X) x m = Inr y
          \<and> Transition_forward (extra_Transition X) n3 = Inr out"
    by blast
qed

lemma ex_chunk_mask: "chunk 2 ex_mask 2 0 = ex_mask_col"
  by code_simp

theorem column_mask_from_original_mask_witness:
  "MSAStack_forward ex_env (ex_stack False) ex_node ex_pair ex_mask 0 = Inr (ex_out, 0)
   \<and> ExtraMSAStack_forward ex_env (ex_extra_stack False) ex_node ex_pair ex_mask 0
       = Inr (ex_out, 0)
   \<and> 2 < length (shape ex_mask) \<and> shape ex_mask ! 2 mod 2 = 0
   \<and> scatter (grp ex_env) ex_mask 2 = Inr ex_mask_col"
proof -
  from column_mask_from_original_mask[of ex_env "ex_stack False" ex_node ex_pair ex_mask 0
      ex_out 0 "ex_extra_stack False", THEN conjunct1, rule_format, OF ex_forward]
  have "2 < length (shape ex_mask) \<and> shape ex_mask ! 2 mod world_size (grp ex_env) = 0
      \<and> scatter (grp ex_env) ex_mask 2
          = Inr (chunk (world_size (grp ex_env)) ex_mask 2 (rank (grp ex_env)))"
    by (elim conjE exE) simp
  moreover have "world_size (grp ex_env) = 2" "rank (grp ex_env) = 0"
    by (simp_all add: ex_env_def)
  ultimately show ?thesis
    using ex_forward ex_extra_forward ex_chunk_mask by simp
qed

text \<open>
  The spec asks whether taking the column mask from the original mask instead of
  resharding the row mask is a latent inconsistency. In a group whose workers hold the row
  chunks of one well-formed mask, resharding those chunks gives the same column chunks.
\<close>

lemma row_to_col_of_row_mask:
  assumes "well_formed m" and "2 < length (shape m)" and "0 < w"
    and "shape m ! 1 mod w = 0" and "shape m ! 2 mod w = 0"
  shows "\<exists>rows. scatter_all w m 1 = Inr rows \<and> row_to_col_all w rows = scatter_all w m 2"
proof -
  let ?rows = "map (chunk w m 1) [0..<w]"
  let ?sh = "(shape m)[1 := shape m ! 1 div w]"
  have d1: "1 < length (shape m)" using assms(2) by simp
  have 1: "scatter_all w m 1 = Inr ?rows" using d1 assms(4) by (rule scatter_all_chunks)
  have len: "length ?rows = w" by simp
  have sh: "\<And>s. s \<in> set ?rows \<Longrightarrow> shape s = ?sh" by auto
  have d: "2 < length ?sh" using assms(2) by simp
  have dv: "?sh ! 2 mod w = 0" using assms(5) by simp
  have 2: "row_to_col_all w ?rows = Inr (map (col_of w ?sh ?rows) [0..<w])"
    using assms(3) len sh d dv by (rule row_to_col_all_value)
  obtain full where cat: "torch_cat ?rows 1 = Inr full"
    and sc: "scatter_all w full 2 = Inr (map (col_of w ?sh ?rows) [0..<w])"
    using col_of_full[OF assms(3) len sh d dv] by blast
  have "torch_cat ?rows 1 = Inr m" using assms(1) d1 assms(3,4) by (rule torch_cat_chunks)
  with cat have "full = m" by simp
  with 1 2 sc show ?thesis by simp
qed

subsection \<open>Zero tensors and the residual paths\<close>

lemma has_shape_full_nd: "has_shape sh (full_nd sh v)"
  by (induction sh) (auto simp: list_all_iff)

lemma has_shape_map_nd: "has_shape sh t \<Longrightarrow> has_shape sh (map_nd f t)"
  by (induction sh t rule: has_shape.induct) (auto simp: list_all_iff)

lemma has_shape_zip_nd:
  "has_shape sh a \<Longrightarrow> has_shape sh b \<Longrightarrow> has_shape sh (zip_nd f a b)"
proof (induction sh arbitrary: a b)
  case Nil
  then show ?case by (cases a; cases b) auto
next
  case (Cons n ns)
  then obtain as bs where a: "a = Axis as" and b: "b = Axis bs"
    by (cases a; cases b) auto
  with Cons.prems have la: "length as = n" and lb: "length bs = n"
    and ha: "\<And>x. x \<in> set as \<Longrightarrow> has_shape ns x"
    and hb: "\<And>x. x \<in> set bs \<Longrightarrow> has_shape ns x"
    by (auto simp: list_all_iff)
  have "\<And>x y. (x, y) \<in> set (zip as bs) \<Longrightarrow> has_shape ns (zip_nd f x y)"
    using Cons.IH ha hb by (meson set_zip_leftD set_zip_rightD)
  then show ?case using la lb by (auto simp: a b list_all_iff)
qed

lemma zip_nd_add_zero:
  "has_shape sh t \<Longrightarrow> zip_nd (\<lambda>x y. x + y) t (full_nd sh (0::real)) = t"
proof (induction sh arbitrary: t)
  case Nil
  then show ?case by (cases t) auto
next
  case (Cons n ns)
  then obtain ts where t: "t = Axis ts" by (cases t) auto
  with Cons.prems have len: "length ts = n" and ch: "\<And>x. x \<in> set ts \<Longrightarrow> has_shape ns x"
    by (auto simp: list_all_iff)
  have "map2 (zip_nd (\<lambda>x y. x + y)) ts (replicate n (full_nd ns 0)) = ts"
  proof (rule nth_equalityI)
    show "length (map2 (zip_nd (\<lambda>x y. x + y)) ts (replicate n (full_nd ns (0::real)))) = length ts"
      using len by simp
  next
    fix i assume "i < length (map2 (zip_nd (\<lambda>x y. x + y)) ts (replicate n (full_nd ns (0::real))))"
    then have i: "i < n" using len by simp
    then have "ts ! i \<in> set ts" using len by simp
    then have "zip_nd (\<lambda>x y. x + y) (ts ! i) (full_nd ns 0) = ts ! i"
      using Cons.IH ch by blast
    then show "map2 (zip_nd (\<lambda>x y. x + y)) ts (replicate n (full_nd ns (0::real))) ! i = ts ! i"
      using i len by simp
  qed
  then show ?case by (simp add: t)
qed

lemma zip_nd_zero_mul:
  "has_shape sh t \<Longrightarrow> zip_nd (\<lambda>x y. x * y) (full_nd sh (0::real)) t = full_nd sh 0"
proof (induction sh arbitrary: t)
  case Nil
  then show ?case by (cases t) auto
next
  case (Cons n ns)
  then obtain ts where t: "t = Axis ts" by (cases t) auto
  with Cons.prems have len: "length ts = n" and ch: "\<And>x. x \<in> set ts \<Longrightarrow> has_shape ns x"
    by (auto simp: list_all_iff)
  have "map2 (zip_nd (\<lambda>x y. x * y)) (replicate n (full_nd ns 0)) ts = replicate n (full_nd ns 0)"
  proof (rule nth_equalityI)
    show "length (map2 (zip_nd (\<lambda>x y. x * y)) (replicate n (full_nd ns (0::real))) ts)
        = length (replicate n (full_nd ns (0::real)))"
      using len by simp
  next
    fix i assume "i < length (map2 (zip_nd (\<lambda>x y. x * y)) (replicate n (full_nd ns (0::real))) ts)"
    then have i: "i < n" using len by simp
    then have "ts ! i \<in> set ts" using len by simp
    then have "zip_nd (\<lambda>x y. x * y) (full_nd ns 0) (ts ! i) = full_nd ns 0"
      using Cons.IH ch by blast
    then show "map2 (zip_nd (\<lambda>x y. x * y)) (replicate n (full_nd ns (0::real))) ts ! i
             = replicate n (full_nd ns (0::real)) ! i"
      using i len by simp
  qed
  then show ?case by (simp add: t)
qed

lemma expand_nd_same: "has_shape sh t \<Longrightarrow> expand_nd sh sh t = t"
proof (induction sh arbitrary: t)
  case Nil
  then show ?case by simp
next
  case (Cons n ns)
  then obtain ts where t: "t = Axis ts" by (cases t) auto
  with Cons.prems have ch: "\<And>x. x \<in> set ts \<Longrightarrow> has_shape ns x"
    by (auto simp: list_all_iff)
  have "map (expand_nd ns ns) ts = ts"
    using Cons.IH ch by (intro map_idI) blast
  then show ?case by (simp add: t)
qed

lemma expand_nd_last_axis:
  "sh \<noteq> [] \<Longrightarrow> expand_nd sh [last sh] (full_nd [last sh] v) = full_nd sh v"
proof (induction sh)
  case Nil
  then show ?case by simp
next
  case (Cons n ns)
  show ?case
  proof (cases "ns = []")
    case True
    then show ?thesis by simp
  next
    case False
    then have "0 < length ns" by simp
    with Cons False show ?thesis by (simp add: Suc_le_eq)
  qed
qed

lemma has_shape_expand_nd:
  "has_shape src t \<Longrightarrow> list_all2 (\<lambda>x y. y = x \<or> y = 1) target src \<Longrightarrow>
   has_shape target (expand_nd target src t)"
proof (induction target arbitrary: src t)
  case Nil
  then show ?case by simp
next
  case (Cons n ns)
  from Cons.prems(2) obtain m ms where src: "src = m # ms"
    and mn: "m = n \<or> m = 1" and rest: "list_all2 (\<lambda>x y. y = x \<or> y = 1) ns ms"
    by (auto simp: list_all2_Cons1)
  from Cons.prems(1) src obtain ts where t: "t = Axis ts" and len: "length ts = m"
    and ch: "\<And>x. x \<in> set ts \<Longrightarrow> has_shape ms x"
    by (cases t) (auto simp: list_all_iff)
  have ll: "length ms = length ns" using rest by (simp add: list_all2_lengthD)
  have ih: "\<And>x. x \<in> set ts \<Longrightarrow> has_shape ns (expand_nd ns ms x)"
    using Cons.IH ch rest by blast
  show ?case
  proof (cases "m = n")
    case True
    then show ?thesis using ih len ll by (simp add: src t list_all_iff)
  next
    case False
    with mn have "m = 1" by simp
    with len obtain x where ts: "ts = [x]" by (cases ts) auto
    then show ?thesis using ih ll False by (simp add: src t list_all_iff)
  qed
qed

lemma bshape_rev_compatible:
  "list_all2 (\<lambda>x y. y = x \<or> y = 1) xs ys \<Longrightarrow> bshape_rev xs ys = Some xs"
  by (induction xs ys rule: list_all2_induct) auto

lemma broadcast_shapes_compatible:
  "list_all2 (\<lambda>x y. y = x \<or> y = 1) xs ys \<Longrightarrow> broadcast_shapes xs ys = Some xs"
  by (simp add: broadcast_shapes_def bshape_rev_compatible)

lemma broadcast_shapes_last_axis: "sh \<noteq> [] \<Longrightarrow> broadcast_shapes sh [last sh] = Some sh"
proof -
  assume "sh \<noteq> []"
  then obtain xs x where "sh = xs @ [x]" by (metis append_butlast_last_id)
  then show ?thesis by (cases "rev xs") (simp_all add: broadcast_shapes_def)
qed

lemma torch_add_zero: "well_formed a \<Longrightarrow> torch_add a (full (shape a) 0) = Inr a"
  by (simp add: torch_add_def torch_binop_def full_def broadcast_shapes_same well_formed_def
      expand_nd_same has_shape_full_nd zip_nd_add_zero)

lemma swap_axes_nd_full:
  "Suc d < length sh \<Longrightarrow> swap_axes_nd d sh (full_nd sh v) = full_nd (swap_shape d sh) v"
proof (induction d arbitrary: sh)
  case 0
  then obtain n m ns where sh: "sh = n # m # ns"
    by (cases sh; cases "tl sh") auto
  have "map (\<lambda>j. Axis (map (\<lambda>row. children row ! j) (replicate n (Axis (replicate m (full_nd ns v))))))
          [0..<m]
      = replicate m (Axis (replicate n (full_nd ns v)))"
    by (rule nth_equalityI) (simp_all add: map_replicate)
  then show ?case by (simp add: sh swap_shape_def)
next
  case (Suc d)
  then obtain n ns where sh: "sh = n # ns" by (cases sh) auto
  with Suc.prems have "Suc d < length ns" by simp
  then have "swap_axes_nd d ns (full_nd ns v) = full_nd (swap_shape d ns) v" by (rule Suc.IH)
  moreover have "swap_shape (Suc d) (n # ns) = n # swap_shape d ns"
    by (simp add: swap_shape_def)
  ultimately show ?case by (simp add: sh map_replicate)
qed

lemma transpose_last_full:
  "0 < k \<Longrightarrow> k < length sh \<Longrightarrow>
   transpose_last (full sh v) k = Inr (full (swap_shape (length sh - (k + 1)) sh) v)"
  by (simp add: transpose_last_def full_def Let_def swap_axes_nd_full)

lemma transpose_zero_back:
  assumes "transpose_last M_raw k = Inr M"
  shows "transpose_last (full (shape M) (0::real)) k = Inr (full (shape M_raw) 0)"
proof -
  from transpose_last_shape[OF assms]
  have k: "0 < k" "k < length (shape M_raw)"
    and M: "shape M = swap_shape (length (shape M_raw) - (k + 1)) (shape M_raw)" by auto
  have "transpose_last (full (shape M) 0) k
      = Inr (full (swap_shape (length (shape M) - (k + 1)) (shape M)) 0)"
    using k M by (intro transpose_last_full) auto
  moreover have "swap_shape (length (shape M) - (k + 1)) (shape M) = shape M_raw"
    using k unfolding M by (simp add: swap_shape_twice)
  ultimately show ?thesis by simp
qed

lemma MSAColumnAttention_zero_identity:
  assumes "well_formed M_raw" and "transpose_last M_raw 2 = Inr M"
    and "col_layernormM self M = Inr M1" and "transpose_last M_mask 1 = Inr m"
    and "col_attention self M1 m None = Inr (full (shape M) 0)"
  shows "MSAColumnAttention_forward self M_raw M_mask = Inr M_raw"
  using assms(2-5) transpose_zero_back[OF assms(2)] torch_add_zero[OF assms(1)]
  by (simp add: MSAColumnAttention_forward_def SelfAttention_def bindE_Inr)

lemma MSAColumnGlobalAttention_zero_identity:
  assumes "well_formed M_raw" and "transpose_last M_raw 2 = Inr M"
    and "gcol_layernormM self M = Inr M1" and "transpose_last M_mask 1 = Inr m"
    and "global_attention self M1 m = Inr (full (shape M) 0)"
  shows "MSAColumnGlobalAttention_forward self M_raw M_mask = Inr M_raw"
  using assms(2-5) transpose_zero_back[OF assms(2)] torch_add_zero[OF assms(1)]
  by (simp add: MSAColumnGlobalAttention_forward_def bindE_Inr)

lemma Transition_zero_identity:
  assumes "well_formed src" and "feed_forward self src = Inr (full (shape src) 0)"
  shows "Transition_forward self src = Inr src"
  using assms(2) torch_add_zero[OF assms(1)]
  by (simp add: Transition_forward_def bindE_Inr)

lemma torch_add_zero_bias:
  "sh \<noteq> [] \<Longrightarrow> torch_add (full sh 0) (full [last sh] 0) = Inr (full sh 0)"
  by (simp add: torch_add_def torch_binop_def full_def broadcast_shapes_last_axis
      expand_nd_same has_shape_full_nd expand_nd_last_axis zip_nd_add_zero
      del: full_nd.simps)

lemma row_mask_compatible:
  fixes sh :: "nat list"
  shows "list_all2 (\<lambda>x y. y = x \<or> y = 1) sh (sh[1 := min 1 (sh ! 1)])"
proof (rule list_all2_all_nthI)
  show "length sh = length (sh[1 := min 1 (sh ! 1)])" by simp
next
  fix i assume i: "i < length sh"
  show "sh[1 := min 1 (sh ! 1)] ! i = sh ! i \<or> sh[1 := min 1 (sh ! 1)] ! i = 1"
  proof (cases "i = 1")
    case True
    with i show ?thesis by (simp add: min_def)
  next
    case False
    then show ?thesis by simp
  qed
qed

lemma torch_mul_zero:
  assumes "well_formed dm" and "shape dm = sh[1 := min 1 (sh ! 1)]"
  shows "torch_mul (full sh 0) dm = Inr (full sh 0)"
proof -
  have b: "broadcast_shapes sh (shape dm) = Some sh"
    unfolding assms(2) using row_mask_compatible by (rule broadcast_shapes_compatible)
  have "has_shape sh (expand_nd sh (shape dm) (elems dm))"
    using assms(1) row_mask_compatible[of sh] unfolding well_formed_def assms(2)
    by (rule has_shape_expand_nd)
  then have "zip_nd (\<lambda>x y. x * y) (full_nd sh 0) (expand_nd sh (shape dm) (elems dm)) = full_nd sh 0"
    by (rule zip_nd_zero_mul)
  then show ?thesis
    by (simp add: torch_mul_def torch_binop_def full_def b expand_nd_same has_shape_full_nd
        del: full_nd.simps)
qed

lemma F_dropout_shaped:
  assumes "0 \<le> p" and "p \<le> 1" and "well_formed x" and "sampler_shaped s"
  shows "\<exists>dm g'. F_dropout s x p train g = Inr (dm, g') \<and> shape dm = shape x \<and> well_formed dm"
proof -
  have z: "well_formed (map_tensor (\<lambda>_. 0::real) x)"
    using assms(3) by (simp add: well_formed_def map_tensor_def has_shape_map_nd)
  have k: "has_shape (shape x) (elems (fst (s g p (shape x))))"
    using assms(4) by (simp add: sampler_shaped_def)
  have "well_formed \<lparr>shape = shape x,
          elems = zip_nd (\<lambda>k v. if k then v / (1 - p) else 0)
                    (elems (fst (s g p (shape x)))) (elems x)\<rparr>"
    using k assms(3) by (simp add: well_formed_def has_shape_zip_nd)
  with z assms(1,2,3) show ?thesis
    by (auto simp: F_dropout_def Let_def map_tensor_def)
qed

lemma first_row_slice_ones:
  assumes "well_formed M1" and "4 \<le> length (shape M1)"
  shows "\<exists>sl. first_row_slice M1 = Inr sl \<and> well_formed (ones_like sl)
           \<and> shape (ones_like sl) = (shape M1)[1 := min 1 (shape M1 ! 1)]"
proof -
  let ?c = "min 1 (shape M1 ! 1)"
  have "has_shape ((shape M1)[1 := ?c]) (narrow_nd 1 0 ?c (elems M1))"
    using assms by (intro has_shape_narrow) (auto simp: well_formed_def)
  then show ?thesis
    using assms(2)
    by (simp add: first_row_slice_def Let_def ones_like_def map_tensor_def well_formed_def
        has_shape_map_nd)
qed

lemma bias_dropout_add_zero:
  assumes "well_formed M_raw" and "shape M_raw \<noteq> []"
    and "well_formed dmask" and "shape dmask = (shape M_raw)[1 := min 1 (shape M_raw ! 1)]"
    and "0 \<le> p" and "p \<le> 1" and "sampler_shaped s"
  shows "\<exists>g'. bias_dropout_add s (full (shape M_raw) 0) (full [last (shape M_raw)] 0) dmask M_raw
               p train g = Inr (M_raw, g')"
proof -
  from F_dropout_shaped[OF assms(5,6,3,7), of train g] obtain dm g' where
    d: "F_dropout s dmask p train g = Inr (dm, g')" and sd: "shape dm = shape dmask"
    and wd: "well_formed dm" by blast
  have m: "torch_mul (full (shape M_raw) 0) dm = Inr (full (shape M_raw) 0)"
    using wd sd assms(4) by (intro torch_mul_zero) simp_all
  show ?thesis
    using torch_add_zero_bias[OF assms(2)] d m torch_add_zero[OF assms(1)]
    by (simp add: bias_dropout_add_def bindE_Inr)
qed

lemma MSARowAttentionWithPairBias_zero_identity:
  assumes "well_formed M_raw" and "4 \<le> length (shape M_raw)"
    and "row_layernormM self M_raw = Inr M" and "row_layernormZ self Z = Inr Z1"
    and "F_linear Z1 (linear_b_weights self) = Inr b"
    and "gather (grp e) (bias_peers e) b 1 = Inr b_full"
    and "row_attention self M M_mask (Some b_full) = Inr (full (shape M_raw) 0)"
    and "out_bias self = full [last (shape M_raw)] 0"
    and "0 \<le> p_drop self" and "p_drop self \<le> 1" and "sampler_shaped (bernoulli e)"
  shows "\<exists>g'. MSARowAttentionWithPairBias_forward e self M_raw Z M_mask g = Inr (M_raw, g')"
proof -
  have ne: "shape M_raw \<noteq> []" using assms(2) by auto
  have wz: "well_formed (full (shape M_raw) (0::real))"
    by (simp add: well_formed_def full_def has_shape_full_nd)
  have "4 \<le> length (shape (full (shape M_raw) (0::real)))" using assms(2) by (simp add: full_def)
  from first_row_slice_ones[OF wz this] obtain sl where
    sl: "first_row_slice (full (shape M_raw) (0::real)) = Inr sl"
    and wo: "well_formed (ones_like sl)"
    and so: "shape (ones_like sl) = (shape M_raw)[1 := min 1 (shape M_raw ! 1)]"
    by (auto simp: full_def)
  from bias_dropout_add_zero[OF assms(1) ne wo so assms(9,10,11), of "training self" g]
  obtain g' where
    "bias_dropout_add (bernoulli e) (full (shape M_raw) 0) (full [last (shape M_raw)] 0)
       (ones_like sl) M_raw (p_drop self) (training self) g = Inr (M_raw, g')" by blast
  moreover have "MSARowAttentionWithPairBias_forward e self M_raw Z M_mask g
      = bias_dropout_add (bernoulli e) (full (shape M_raw) 0) (out_bias self)
          (ones_like sl) M_raw (p_drop self) (training self) g"
    using assms(3-7) sl
    by (simp add: MSARowAttentionWithPairBias_forward_eq_sync
        MSARowAttentionWithPairBias_forward_sync_def bindE_Inr)
  ultimately show ?thesis using assms(8) by auto
qed

lemma ex_gather_bias: "gather (grp ex_env) (bias_peers ex_env) ex_pair 1 = Inr ex_bias_full"
  by code_simp

lemma ex_linear_pair: "F_linear ex_pair (linear_b_weights (ex_zero_row bias)) = Inr ex_pair"
  by code_simp

lemma ex_zero_attention:
  "row_attention (ex_zero_row bias) ex_node ex_mask_row (Some ex_bias_full)
   = Inr (full (shape ex_node) 0)"
  by (simp add: ex_zero_row_def)

lemma ex_zero_row_forward_bias:
  "MSARowAttentionWithPairBias_forward ex_env (ex_zero_row (full [1] 1)) ex_node ex_pair
     ex_mask_row 0 = Inr (ex_node_plus_bias, 0)"
  by code_simp

text \<open>
  C7, as stated, fails for the row attention block: its attention is built with
  \<open>last_bias_fuse=True\<close> and the block itself adds the learned \<open>out_bias\<close> before the
  residual. With an attention output that is exactly zero and an output bias of 1 the
  block returns its input plus 1.
\<close>

theorem zero_attention_row_block_not_identity:
  "row_layernormM (ex_zero_row (full [1] 1)) ex_node = Inr ex_node
   \<and> gather (grp ex_env) (bias_peers ex_env) ex_pair 1 = Inr ex_bias_full
   \<and> row_attention (ex_zero_row (full [1] 1)) ex_node ex_mask_row (Some ex_bias_full)
       = Inr (full (shape ex_node) 0)
   \<and> MSARowAttentionWithPairBias_forward ex_env (ex_zero_row (full [1] 1)) ex_node ex_pair
       ex_mask_row 0 = Inr (ex_node_plus_bias, 0)
   \<and> ex_node_plus_bias \<noteq> ex_node"
proof (intro conjI)
  show "row_layernormM (ex_zero_row (full [1] 1)) ex_node = Inr ex_node"
    by (simp add: ex_zero_row_def)
  show "gather (grp ex_env) (bias_peers ex_env) ex_pair 1 = Inr ex_bias_full"
    by (rule ex_gather_bias)
  show "row_attention (ex_zero_row (full [1] 1)) ex_node ex_mask_row (Some ex_bias_full)
       = Inr (full (shape ex_node) 0)"
    by (rule ex_zero_attention)
  show "MSARowAttentionWithPairBias_forward ex_env (ex_zero_row (full [1] 1)) ex_node ex_pair
       ex_mask_row 0 = Inr (ex_node_plus_bias, 0)"
    by (rule ex_zero_row_forward_bias)
  show "ex_node_plus_bias \<noteq> ex_node"
    by (simp add: ex_node_plus_bias_def ex_node_def)
qed

text \<open>
  C7, amended. If the attention kernel of MSAColumnAttention or of
  MSAColumnGlobalAttention returns exactly zero (a zero tensor of the shape of its input),
  the block returns its well-formed input unchanged, and so does the transition when its
  feed-forward returns zero: each returns the raw input plus the sub-module output. The
  row attention block adds (attention output + out_bias), under the dropout mask, to its
  pre-normalization input; it returns that input unchanged when the attention output is
  exactly zero and, in addition, the output bias is zero.
\<close>

theorem zero_submodule_output_gives_identity:
  "(well_formed M_raw \<and> transpose_last M_raw 2 = Inr M \<and> col_layernormM ca M = Inr M1
      \<and> transpose_last M_mask 1 = Inr m \<and> col_attention ca M1 m None = Inr (full (shape M) 0)
      \<longrightarrow> MSAColumnAttention_forward ca M_raw M_mask = Inr M_raw)
   \<and> (well_formed M_raw \<and> transpose_last M_raw 2 = Inr M \<and> gcol_layernormM ga M = Inr M1
      \<and> transpose_last M_mask 1 = Inr m \<and> global_attention ga M1 m = Inr (full (shape M) 0)
      \<longrightarrow> MSAColumnGlobalAttention_forward ga M_raw M_mask = Inr M_raw)
   \<and> (well_formed M_raw \<and> feed_forward tr M_raw = Inr (full (shape M_raw) 0)
      \<longrightarrow> Transition_forward tr M_raw = Inr M_raw)
   \<and> (well_formed M_raw \<and> 4 \<le> length (shape M_raw)
      \<and> row_layernormM ra M_raw = Inr Mn \<and> row_layernormZ ra Z = Inr Z1
      \<and> F_linear Z1 (linear_b_weights ra) = Inr b
      \<and> gather (grp e) (bias_peers e) b 1 = Inr b_full
      \<and> row_attention ra Mn M_mask (Some b_full) = Inr (full (shape M_raw) 0)
      \<and> out_bias ra = full [last (shape M_raw)] 0
      \<and> 0 \<le> p_drop ra \<and> p_drop ra \<le> 1 \<and> sampler_shaped (bernoulli e)
      \<longrightarrow> (\<exists>g'. MSARowAttentionWithPairBias_forward e ra M_raw Z M_mask g = Inr (M_raw, g')))"
proof (intro conjI impI)
  assume "well_formed M_raw \<and> transpose_last M_raw 2 = Inr M \<and> col_layernormM ca M = Inr M1
      \<and> transpose_last M_mask 1 = Inr m \<and> col_attention ca M1 m None = Inr (full (shape M) 0)"
  then show "MSAColumnAttention_forward ca M_raw M_mask = Inr M_raw"
    using MSAColumnAttention_zero_identity by blast
next
  assume "well_formed M_raw \<and> transpose_last M_raw 2 = Inr M \<and> gcol_layernormM ga M = Inr M1
      \<and> transpose_last M_mask 1 = Inr m \<and> global_attention ga M1 m = Inr (full (shape M) 0)"
  then show "MSAColumnGlobalAttention_forward ga M_raw M_mask = Inr M_raw"
    using MSAColumnGlobalAttention_zero_identity by blast
next
  assume "well_formed M_raw \<and> feed_forward tr M_raw = Inr (full (shape M_raw) 0)"
  then show "Transition_forward tr M_raw = Inr M_raw"
    using Transition_zero_identity by blast
next
  assume "well_formed M_raw \<and> 4 \<le> length (shape M_raw)
      \<and> row_layernormM ra M_raw = Inr Mn \<and> row_layernormZ ra Z = Inr Z1
      \<and> F_linear Z1 (linear_b_weights ra) = Inr b
      \<and> gather (grp e) (bias_peers e) b 1 = Inr b_full
      \<and> row_attention ra Mn M_mask (Some b_full) = Inr (full (shape M_raw) 0)
      \<and> out_bias ra = full [last (shape M_raw)] 0
      \<and> 0 \<le> p_drop ra \<and> p_drop ra \<le> 1 \<and> sampler_shaped (bernoulli e)"
  then show "\<exists>g'. MSARowAttentionWithPairBias_forward e ra M_raw Z M_mask g = Inr (M_raw, g')"
    using MSARowAttentionWithPairBias_zero_identity[of M_raw ra Mn Z Z1 b e b_full M_mask g]
    by blast
qed

lemma ex_node_well_formed: "well_formed ex_node"
  by (simp add: well_formed_def ex_node_def)

lemma ex_sampler_shaped: "sampler_shaped (bernoulli ex_env)"
  by (simp add: sampler_shaped_def ex_env_def full_def has_shape_full_nd)

lemma ex_transposes:
  "transpose_last ex_node 2 = Inr ex_node_t" "transpose_last ex_mask_row 1 = Inr ex_mask_row_t"
  by code_simp+

theorem zero_submodule_output_gives_identity_witness:
  "MSAColumnAttention_forward ex_zero_col ex_node ex_mask_row = Inr ex_node
   \<and> MSAColumnGlobalAttention_forward ex_zero_gcol ex_node ex_mask_row = Inr ex_node
   \<and> Transition_forward ex_zero_transition ex_node = Inr ex_node
   \<and> (\<exists>g'. MSARowAttentionWithPairBias_forward ex_env (ex_zero_row (full [1] 0)) ex_node
              ex_pair ex_mask_row (0::nat) = Inr (ex_node, g'))"
proof -
  note inst = zero_submodule_output_gives_identity[of ex_node ex_node_t ex_zero_col ex_node_t
      ex_mask_row ex_mask_row_t ex_zero_gcol ex_zero_transition "ex_zero_row (full [1] 0)"
      ex_node ex_pair ex_pair ex_pair ex_env ex_bias_full 0]
  have c: "col_layernormM ex_zero_col ex_node_t = Inr ex_node_t"
    "col_attention ex_zero_col ex_node_t ex_mask_row_t None = Inr (full (shape ex_node_t) 0)"
    "gcol_layernormM ex_zero_gcol ex_node_t = Inr ex_node_t"
    "global_attention ex_zero_gcol ex_node_t ex_mask_row_t = Inr (full (shape ex_node_t) 0)"
    "feed_forward ex_zero_transition ex_node = Inr (full (shape ex_node) 0)"
    by (simp_all add: ex_zero_col_def ex_zero_gcol_def ex_zero_transition_def)
  have r: "4 \<le> length (shape ex_node)"
    "row_layernormM (ex_zero_row (full [1] 0)) ex_node = Inr ex_node"
    "row_layernormZ (ex_zero_row (full [1] 0)) ex_pair = Inr ex_pair"
    "out_bias (ex_zero_row (full [1] 0)) = full [last (shape ex_node)] 0"
    "0 \<le> p_drop (ex_zero_row (full [1] 0))" "p_drop (ex_zero_row (full [1] 0)) \<le> 1"
    by (simp_all add: ex_zero_row_def ex_node_def)
  from inst[THEN conjunct1] ex_node_well_formed ex_transposes c
  have 1: "MSAColumnAttention_forward ex_zero_col ex_node ex_mask_row = Inr ex_node" by blast
  from inst[THEN conjunct2, THEN conjunct1] ex_node_well_formed ex_transposes c
  have 2: "MSAColumnGlobalAttention_forward ex_zero_gcol ex_node ex_mask_row = Inr ex_node"
    by blast
  from inst[THEN conjunct2, THEN conjunct2, THEN conjunct1] ex_node_well_formed c
  have 3: "Transition_forward ex_zero_transition ex_node = Inr ex_node" by blast
  from inst[THEN conjunct2, THEN conjunct2, THEN conjunct2] ex_node_well_formed r
    ex_linear_pair ex_gather_bias ex_zero_attention ex_sampler_shaped
  have 4: "\<exists>g'. MSARowAttentionWithPairBias_forward ex_env (ex_zero_row (full [1] 0)) ex_node
              ex_pair ex_mask_row (0::nat) = Inr (ex_node, g')" by blast
  from 1 2 3 4 show ?thesis by blast
qed

end
